theory Spec2Isabelle
  imports Main
begin

section \<open>Change-control workflow: a shallow embedding of \<^verbatim>\<open>utils.py\<close> and \<^verbatim>\<open>workflow.py\<close>\<close>

text \<open>
  The Django application keeps one \<^verbatim>\<open>ChangeControlRequest\<close> row per request together with
  its sub-records (evaluator assignments, evaluations, the risk assessment, document
  revisions, action-plan items) and its audit log. The theory models the rows of one
  request as a record (\<open>store\<close>), every workflow function as a function from the store
  before the call to the store after it, and every \<^verbatim>\<open>raise\<close> as an error value returned
  next to the store as it stands when the exception leaves the function: no function of
  \<^verbatim>\<open>workflow.py\<close> or \<^verbatim>\<open>api.py\<close> opens a transaction (\<^verbatim>\<open>transaction\<close> is imported and never
  used), so rows written before a \<^verbatim>\<open>raise\<close> stay written.

  Users are identified by their user name and departments by their code (both are unique
  columns). The clock (\<^verbatim>\<open>timezone.now()\<close>) and the two-digit year
  (\<^verbatim>\<open>datetime.now().strftime('%y')\<close>) are parameters of the functions that read them.
  Columns that no workflow function reads (\<^verbatim>\<open>created_at\<close>, \<^verbatim>\<open>updated_at\<close>, \<^verbatim>\<open>assigned_at\<close>,
  \<^verbatim>\<open>evaluation_date\<close>, the history \<^verbatim>\<open>timestamp\<close>) are left out.
\<close>

subsection \<open>Python string helpers used by \<^verbatim>\<open>utils.py\<close>\<close>

text \<open>
  The queries of \<^verbatim>\<open>utils.py\<close> select the existing numbers with the ORM lookup
  \<^verbatim>\<open>__startswith=prefix\<close>, which the database evaluates (\<^verbatim>\<open>LIKE\<close> with the wild cards of
  the prefix escaped). How it compares letters depends on the database, which is not part
  of the repository: the functions below take the lookup as a parameter, applied to a
  stored number and the prefix. \<open>startswith\<close> is the lookup of a database that compares
  exactly; \<open>istartswith\<close> is the lookup of SQLite, whose \<^verbatim>\<open>LIKE\<close> ignores the case of the
  ASCII letters.
\<close>

type_synonym lookup = "string \<Rightarrow> string \<Rightarrow> bool"

fun startswith :: "string \<Rightarrow> string \<Rightarrow> bool" where
  "startswith s [] = True"
| "startswith [] (p # ps) = False"
| "startswith (c # cs) (p # ps) = (c = p \<and> startswith cs ps)"



text \<open>
  \<^verbatim>\<open>s.split(sep)\<close> for a one-character separator: the list of the segments between the
  separators, never empty. \<open>split_acc\<close> carries the segment being read.
\<close>

fun split_acc :: "char \<Rightarrow> string \<Rightarrow> string \<Rightarrow> string list" where
  "split_acc sep cur [] = [cur]"
| "split_acc sep cur (c # cs) =
     (if c = sep then cur # split_acc sep [] cs else split_acc sep (cur @ [c]) cs)"

definition split :: "char \<Rightarrow> string \<Rightarrow> string list" where
  "split sep s = split_acc sep [] s"

text \<open>
  \<^verbatim>\<open>int(s)\<close> on a string, \<open>None\<close> standing for \<^verbatim>\<open>ValueError\<close>: white space is stripped on
  both sides, one sign is allowed, then decimal digits, with single underscores allowed
  between two digits. Characters are code points below 256; the digits of other scripts,
  which Python also accepts, are outside this character type. (Python's limit of 4300
  digits cannot be reached by a column of at most 50 characters.)

  The white space \<^verbatim>\<open>int\<close> strips is narrower than that of \<^verbatim>\<open>str.strip\<close>: the six ASCII
  characters tab, line feed, vertical tab, form feed, carriage return and space, and the
  Unicode spaces above ASCII, of which NEL (0x85) and the no-break space (0xA0) lie below
  256. The separators 0x1C to 0x1F are not stripped: \<^verbatim>\<open>int('\x1c7')\<close> raises \<^verbatim>\<open>ValueError\<close>.
\<close>

definition is_space :: "char \<Rightarrow> bool" where
  "is_space c = (c \<in> set [CHR 0x09, CHR 0x0A, CHR 0x0B, CHR 0x0C, CHR 0x0D, CHR 0x20,
                           CHR 0x85, CHR 0xA0])"

definition strip :: "string \<Rightarrow> string" where
  "strip s = rev (dropWhile is_space (rev (dropWhile is_space s)))"

definition is_digit :: "char \<Rightarrow> bool" where
  "is_digit c = (c \<in> set ''0123456789'')"

definition digit_val :: "char \<Rightarrow> int" where
  "digit_val c = int (of_char c) - 48"

fun after_digit :: "int \<Rightarrow> string \<Rightarrow> int option" where
  "after_digit acc [] = Some acc"
| "after_digit acc (c # cs) =
     (if is_digit c then after_digit (10 * acc + digit_val c) cs
      else if c = CHR ''_'' then
        (case cs of
           [] \<Rightarrow> None
         | d # ds \<Rightarrow> if is_digit d then after_digit (10 * acc + digit_val d) ds else None)
      else None)"

definition unsigned_int :: "string \<Rightarrow> int option" where
  "unsigned_int s =
     (case s of
        [] \<Rightarrow> None
      | c # cs \<Rightarrow> if is_digit c then after_digit (digit_val c) cs else None)"

definition py_int :: "string \<Rightarrow> int option" where
  "py_int s =
     (case strip s of
        [] \<Rightarrow> None
      | c # cs \<Rightarrow>
          if c = CHR ''-'' then map_option uminus (unsigned_int cs)
          else if c = CHR ''+'' then unsigned_int cs
          else unsigned_int (c # cs))"

text \<open>\<^verbatim>\<open>str(n)\<close> for an integer and \<^verbatim>\<open>s.zfill(width)\<close>.\<close>

definition digit_char :: "nat \<Rightarrow> char" where
  "digit_char d = ''0123456789'' ! d"

fun str_nat :: "nat \<Rightarrow> string" where
  "str_nat n = (if n < 10 then [digit_char n] else str_nat (n div 10) @ [digit_char (n mod 10)])"

declare str_nat.simps [simp del]

definition str_int :: "int \<Rightarrow> string" where
  "str_int i = (if i < 0 then CHR ''-'' # str_nat (nat (- i)) else str_nat (nat i))"

definition zfill :: "nat \<Rightarrow> string \<Rightarrow> string" where
  "zfill width s =
     (case s of
        [] \<Rightarrow> replicate width CHR ''0''
      | c # cs \<Rightarrow>
          if c = CHR ''+'' \<or> c = CHR ''-''
          then c # replicate (width - length s) CHR ''0'' @ cs
          else replicate (width - length s) CHR ''0'' @ s)"

subsection \<open>\<^verbatim>\<open>utils.py\<close>: the tracking-number generator\<close>

text \<open>
  The loop of \<^verbatim>\<open>generate_temp_cc_number\<close> over the existing numbers: the suffix after the
  last \<^verbatim>\<open>/\<close> is parsed, a \<^verbatim>\<open>ValueError\<close> skips the number, and the running maximum
  starts at 0. (\<^verbatim>\<open>split\<close> never returns an empty list, so the \<^verbatim>\<open>IndexError\<close> of the
  \<^verbatim>\<open>except\<close> clause cannot occur.)
\<close>

fun max_sequence_loop :: "int \<Rightarrow> string list \<Rightarrow> int" where
  "max_sequence_loop max_sequence [] = max_sequence"
| "max_sequence_loop max_sequence (number # rest) =
     (case py_int (last (split CHR ''/'' number)) of
        None \<Rightarrow> max_sequence_loop max_sequence rest
      | Some sequence \<Rightarrow>
          if sequence > max_sequence then max_sequence_loop sequence rest
          else max_sequence_loop max_sequence rest)"

definition cc_prefix :: "string \<Rightarrow> string \<Rightarrow> string" where
  "cc_prefix current_year department_code =
     ''REQ/CC/'' @ current_year @ ''/'' @ department_code @ ''/''"

text \<open>
  \<open>all_temp_numbers\<close> is the column \<^verbatim>\<open>temporary_cc_number\<close> of every stored request;
  the query keeps those the lookup selects for the prefix.
\<close>

definition generate_temp_cc_number ::
  "lookup \<Rightarrow> string \<Rightarrow> string \<Rightarrow> string list \<Rightarrow> string" where
  "generate_temp_cc_number lookup current_year department_code all_temp_numbers =
     (let prefix = cc_prefix current_year department_code;
          existing_numbers = filter (\<lambda>n. lookup n prefix) all_temp_numbers;
          max_sequence = max_sequence_loop 0 existing_numbers;
          next_sequence = max_sequence + 1;
          sequence_str = zfill 5 (str_int next_sequence)
      in prefix @ sequence_str)"

text \<open>
  \<^verbatim>\<open>generate_final_cc_number\<close>: the same loop over the non-null final numbers, with the
  generic code \<^verbatim>\<open>GEN\<close> when no department code is given.
\<close>

definition generate_final_cc_number ::
  "lookup \<Rightarrow> string \<Rightarrow> string option \<Rightarrow> string list \<Rightarrow> string" where
  "generate_final_cc_number lookup current_year department_code all_final_numbers =
     (let prefix = (case department_code of
                      None \<Rightarrow> cc_prefix current_year ''GEN''
                    | Some c \<Rightarrow> if c = [] then cc_prefix current_year ''GEN''
                                else cc_prefix current_year c);
          existing_numbers = filter (\<lambda>n. lookup n prefix) all_final_numbers;
          max_sequence = max_sequence_loop 0 existing_numbers;
          next_sequence = max_sequence + 1;
          sequence_str = zfill 5 (str_int next_sequence)
      in prefix @ sequence_str)"

subsection \<open>\<^verbatim>\<open>models.py\<close>: the data model\<close>

type_synonym user = string
type_synonym timestamp = nat

datatype status =
    Draft | PendingDeptHead | PendingQARegistration | PendingCFTEvaluation
  | PendingRiskAssessment | PendingDocumentUpdate | PendingActionPlan
  | PendingQAEvaluation | PendingQAHeadApproval | PendingVerification
  | Closed | Rejected

datatype impact_level = Minor | Major | Critical

datatype impact_type = Operational | Quality | Regulatory | Financial | Technical | Other

datatype decision = Approved | ApprovedWithConditions | DecisionRejected | DecisionPending

datatype risk_level = Low | Medium | High | RiskCritical

text \<open>\<^verbatim>\<open>RiskAssessment.StatusChoices\<close> and \<^verbatim>\<open>ActionPlan.StatusChoices\<close> have the same four values.\<close>

datatype task_status = TaskPending | TaskInProgress | TaskCompleted | TaskCancelled

datatype revision_status = RevPending | RevInProgress | RevCompleted | RevNotRequired

record department =
  code :: string
  head :: "user option"

record request =
  temporary_cc_number :: string
  final_cc_number :: "string option"
  initiator :: user
  department :: department
  title :: string
  description :: string
  impact_level :: "impact_level option"
  target_completion_time :: "nat option"
  qa_registered_by :: "user option"
  qa_registration_date :: "timestamp option"
  status :: status
  current_step :: int
  closed_at :: "timestamp option"
  rejection_reason :: string
  rejected_by :: "user option"
  rejected_at :: "timestamp option"

text \<open>A \<^verbatim>\<open>CFTEvaluator\<close> row of the request is the pair (department code, evaluator).\<close>

type_synonym cft_evaluator = "string \<times> user"

record cft_evaluation_row =
  ev_department :: string
  ev_evaluator :: user
  ev_impact_type :: impact_type
  ev_decision :: decision
  ev_risk_level :: risk_level
  ev_notes :: string
  ev_completed_at :: "timestamp option"

record risk_assessment_row =
  ra_assigned_to :: user
  ra_status :: task_status
  ra_findings :: string
  ra_recommendations :: string
  ra_completion_date :: "timestamp option"

record document_revision =
  dr_document_name :: string
  dr_document_code :: string
  dr_assigned_department :: string
  dr_status :: revision_status
  dr_revision_notes :: string
  dr_revision_date :: "timestamp option"
  dr_revised_by :: "user option"

record action_plan =
  ap_description :: string
  ap_responsible_person :: user
  ap_expected_timeline :: nat
  ap_status :: task_status
  ap_completion_date :: "timestamp option"
  ap_notes :: string

record workflow_history_row =
  wh_step :: int
  wh_step_name :: string
  wh_actor :: user
  wh_action :: string
  wh_comments :: string
  wh_previous_status :: status
  wh_new_status :: status

text \<open>
  The rows of one request. \<open>risk_assessment\<close> is the reverse side of the one-to-one
  field: \<open>None\<close> is where \<^verbatim>\<open>hasattr(request, 'risk_assessment')\<close> is false. The history is in
  the order of insertion. \<open>cft_documents\<close> holds the \<^verbatim>\<open>CFTEvaluationDocument\<close> rows as
  (department of the evaluation, file, description).
\<close>

record store =
  req :: request
  cft_evaluators :: "cft_evaluator list"
  cft_evaluations :: "cft_evaluation_row list"
  cft_documents :: "(string \<times> string \<times> string) list"
  risk_assessment :: "risk_assessment_row option"
  document_revisions :: "document_revision list"
  action_plans :: "action_plan list"
  workflow_history :: "workflow_history_row list"

text \<open>
  The exceptions that leave a workflow function. \<open>ValidationError\<close> carries its message.
  \<open>IntegrityError\<close> and \<open>MultipleObjectsReturned\<close> come from \<^verbatim>\<open>get_or_create\<close>,
  \<open>UnboundLocalError\<close> from Python itself, \<open>Http404\<close> from \<^verbatim>\<open>get_object_or_404\<close>.
\<close>

datatype error =
    ValidationError string
  | IntegrityError
  | MultipleObjectsReturned
  | UnboundLocalError
  | Http404

text \<open>The values of the text choices, as they appear in the f-strings of the history comments.\<close>

fun impact_level_of :: "string \<Rightarrow> impact_level option" where
  "impact_level_of s =
     (if s = ''Minor'' then Some Minor
      else if s = ''Major'' then Some Major
      else if s = ''Critical'' then Some Critical
      else None)"

fun decision_value :: "decision \<Rightarrow> string" where
  "decision_value Approved = ''Approved''"
| "decision_value ApprovedWithConditions = ''Approved_with_Conditions''"
| "decision_value DecisionRejected = ''Rejected''"
| "decision_value DecisionPending = ''Pending''"

fun risk_level_value :: "risk_level \<Rightarrow> string" where
  "risk_level_value Low = ''Low''"
| "risk_level_value Medium = ''Medium''"
| "risk_level_value High = ''High''"
| "risk_level_value RiskCritical = ''Critical''"

subsection \<open>\<^verbatim>\<open>workflow.py\<close>: the audit log\<close>

text \<open>
  \<^verbatim>\<open>log_workflow_history\<close> appends one row. An omitted \<^verbatim>\<open>previous_status\<close> or \<^verbatim>\<open>new_status\<close>
  (\<open>None\<close>) is replaced by the status the request has when the row is written.
\<close>

definition log_workflow_history ::
  "store \<Rightarrow> int \<Rightarrow> string \<Rightarrow> user \<Rightarrow> string \<Rightarrow> string \<Rightarrow> status option \<Rightarrow> status option \<Rightarrow> store" where
  "log_workflow_history s step step_name actor action comments previous_status new_status =
     s\<lparr>workflow_history := workflow_history s @
        [\<lparr>wh_step = step, wh_step_name = step_name, wh_actor = actor, wh_action = action,
          wh_comments = comments,
          wh_previous_status = (case previous_status of None \<Rightarrow> status (req s) | Some p \<Rightarrow> p),
          wh_new_status = (case new_status of None \<Rightarrow> status (req s) | Some n \<Rightarrow> n)\<rparr>]\<rparr>"

subsection \<open>\<^verbatim>\<open>workflow.py\<close>: steps 1 to 3\<close>

text \<open>
  Every function returns the exception that left it (\<open>None\<close> for a normal return) and the
  store after the call. Where the source first assigns fields of the in-memory request
  and calls \<^verbatim>\<open>request.save()\<close> a few lines later, nothing between the two can raise, so
  the model writes the fields at once.

  \<^verbatim>\<open>route_to_dept_head\<close>: step 2, called by \<^verbatim>\<open>initiate_request\<close>.
\<close>

definition route_to_dept_head :: "store \<Rightarrow> user \<Rightarrow> error option \<times> store" where
  "route_to_dept_head s actor =
     (if status (req s) \<noteq> Draft
      then (Some (ValidationError ''Request must be in Draft status to route to department head''), s)
      else
        (case head (department (req s)) of
           None \<Rightarrow>
             (Some (ValidationError (''Department '' @ code (department (req s)) @
                      '' does not have a department head assigned'')), s)
         | Some h \<Rightarrow>
             (let previous_status = status (req s);
                  s1 = s\<lparr>req := (req s)\<lparr>status := PendingDeptHead, current_step := 2\<rparr>\<rparr>
              in (None,
                  log_workflow_history s1 2 ''Department Head Feasibility'' actor
                    ''Routed to department head'' (''Routed to '' @ h)
                    (Some previous_status) (Some (status (req s1)))))))"

text \<open>
  \<^verbatim>\<open>initiate_request\<close> works on the table of all requests (one store per request): it
  creates the request row, writes the first history row and only then calls
  \<^verbatim>\<open>route_to_dept_head\<close>, whose exception passes through. \<^verbatim>\<open>objects.create\<close> raises
  \<^verbatim>\<open>IntegrityError\<close> when the temporary number is taken (the column is unique).
\<close>

definition new_request :: "string \<Rightarrow> user \<Rightarrow> department \<Rightarrow> string \<Rightarrow> string \<Rightarrow> store" where
  "new_request temp_cc_number usr dept ttl descr =
     \<lparr>req = \<lparr>temporary_cc_number = temp_cc_number, final_cc_number = None,
              initiator = usr, department = dept, title = ttl, description = descr,
              impact_level = None, target_completion_time = None,
              qa_registered_by = None, qa_registration_date = None,
              status = Draft, current_step = 1, closed_at = None,
              rejection_reason = [], rejected_by = None, rejected_at = None\<rparr>,
      cft_evaluators = [], cft_evaluations = [], cft_documents = [],
      risk_assessment = None, document_revisions = [], action_plans = [],
      workflow_history = []\<rparr>"

definition initiate_request ::
  "lookup \<Rightarrow> store list \<Rightarrow> string \<Rightarrow> user \<Rightarrow> department option \<Rightarrow> string \<Rightarrow> string
     \<Rightarrow> error option \<times> store list" where
  "initiate_request lookup db current_year usr dept ttl descr =
     (case dept of
        None \<Rightarrow> (Some (ValidationError ''Department is required to initiate a request''), db)
      | Some d \<Rightarrow>
          (let temp_cc_number =
                 generate_temp_cc_number lookup current_year (code d)
                   (map (\<lambda>r. temporary_cc_number (req r)) db)
           in if temp_cc_number \<in> set (map (\<lambda>r. temporary_cc_number (req r)) db)
              then (Some IntegrityError, db)
              else
                (let s0 = new_request temp_cc_number usr d ttl descr;
                     s1 = log_workflow_history s0 1 ''Initiation'' usr ''Request initiated''
                            (''Temporary CC number: '' @ temp_cc_number) None None;
                     (e, s2) = route_to_dept_head s1 usr
                 in (e, db @ [s2]))))"

text \<open>\<^verbatim>\<open>dept_head_decision\<close>: step 2.\<close>

definition dept_head_decision ::
  "store \<Rightarrow> user \<Rightarrow> bool \<Rightarrow> string \<Rightarrow> timestamp \<Rightarrow> error option \<times> store" where
  "dept_head_decision s actor approved reason now =
     (if status (req s) \<noteq> PendingDeptHead
      then (Some (ValidationError ''Request must be pending department head approval''), s)
      else if head (department (req s)) \<noteq> Some actor
      then (Some (ValidationError ''Only the department head can make this decision''), s)
      else
        (let previous_status = status (req s) in
         if approved then
           (let s1 = s\<lparr>req := (req s)\<lparr>status := PendingQARegistration, current_step := 3\<rparr>\<rparr>
            in (None,
                log_workflow_history s1 2 ''Department Head Feasibility'' actor
                  ''Approved by department head'' []
                  (Some previous_status) (Some (status (req s1)))))
         else
           (let s1 = s\<lparr>req := (req s)\<lparr>status := Rejected,
                        rejection_reason :=
                          (if reason = [] then ''Rejected by department head'' else reason),
                        rejected_by := Some actor,
                        rejected_at := Some now,
                        current_step := 2\<rparr>\<rparr>
            in (None,
                log_workflow_history s1 2 ''Department Head Feasibility'' actor
                  ''Rejected by department head'' reason
                  (Some previous_status) (Some (status (req s1)))))))"

text \<open>
  \<^verbatim>\<open>create_risk_assessment\<close>: step 5, called by \<^verbatim>\<open>qa_registration\<close>. It returns the
  existing assessment untouched when there is one; it never raises.
\<close>

definition create_risk_assessment :: "store \<Rightarrow> user \<Rightarrow> user option \<Rightarrow> store" where
  "create_risk_assessment s actor assigned_to =
     (case risk_assessment s of
        Some r \<Rightarrow> s
      | None \<Rightarrow>
          (let assignee =
                 (case assigned_to of
                    Some u \<Rightarrow> u
                  | None \<Rightarrow> (case qa_registered_by (req s) of Some q \<Rightarrow> q | None \<Rightarrow> actor));
               s1 = s\<lparr>risk_assessment :=
                        Some \<lparr>ra_assigned_to = assignee, ra_status = TaskPending,
                              ra_findings = [], ra_recommendations = [],
                              ra_completion_date = None\<rparr>\<rparr>;
               s2 = (if status (req s1) = PendingCFTEvaluation
                     then (if length (cft_evaluators s1) = length (cft_evaluations s1)
                           then s1\<lparr>req := (req s1)\<lparr>status := PendingRiskAssessment,
                                                    current_step := 5\<rparr>\<rparr>
                           else s1)
                     else s1)
           in log_workflow_history s2 5 ''Risk Assessment'' actor
                ''Risk assessment task created'' (''Assigned to '' @ assignee) None None))"

text \<open>
  The loop of \<^verbatim>\<open>qa_registration\<close> over the evaluator entries. An entry without a
  department or without an evaluator is skipped. \<^verbatim>\<open>get_or_create\<close> looks the triple
  (request, department, evaluator) up: one row found, nothing happens; none found, the row
  is inserted, and the insertion raises \<^verbatim>\<open>IntegrityError\<close> when the department already has
  an evaluator for this request (\<^verbatim>\<open>unique_together\<close>). The rows inserted before stay.
\<close>

fun assign_evaluators ::
  "(string option \<times> user option) list \<Rightarrow> cft_evaluator list \<Rightarrow> error option \<times> cft_evaluator list" where
  "assign_evaluators [] rows = (None, rows)"
| "assign_evaluators ((None, evaluator) # rest) rows = assign_evaluators rest rows"
| "assign_evaluators ((Some d, None) # rest) rows = assign_evaluators rest rows"
| "assign_evaluators ((Some d, Some u) # rest) rows =
     (case filter (\<lambda>r. r = (d, u)) rows of
        [] \<Rightarrow> if d \<in> set (map fst rows) then (Some IntegrityError, rows)
              else assign_evaluators rest (rows @ [(d, u)])
      | [r] \<Rightarrow> assign_evaluators rest rows
      | r # r' # rs \<Rightarrow> (Some MultipleObjectsReturned, rows))"

text \<open>
  \<^verbatim>\<open>qa_registration\<close>: step 3. \<open>other_final_numbers\<close> are the final numbers of the other
  requests. The request is saved before the evaluators are assigned.
\<close>

definition qa_registration ::
  "store \<Rightarrow> lookup \<Rightarrow> string list \<Rightarrow> string \<Rightarrow> user \<Rightarrow> string option \<Rightarrow> string
     \<Rightarrow> (string option \<times> user option) list \<Rightarrow> nat \<Rightarrow> timestamp \<Rightarrow> error option \<times> store" where
  "qa_registration s lookup other_final_numbers current_year actor given_number impact
     evaluator_entries target now =
     (if status (req s) \<noteq> PendingQARegistration
      then (Some (ValidationError ''Request must be pending QA registration''), s)
      else
        (case impact_level_of impact of
           None \<Rightarrow> (Some (ValidationError (''Invalid impact level: '' @ impact)), s)
         | Some lvl \<Rightarrow>
             (let previous_status = status (req s);
                  all_final_numbers =
                    other_final_numbers @
                    (case final_cc_number (req s) of None \<Rightarrow> [] | Some n \<Rightarrow> [n]);
                  generated =
                    generate_final_cc_number lookup current_year
                      (Some (code (department (req s))))
                      all_final_numbers;
                  number =
                    (case given_number of
                       None \<Rightarrow> generated
                     | Some n \<Rightarrow> if n = [] then generated else n)
              in if number \<in> set other_final_numbers
                 then (Some (ValidationError (''Final CC number '' @ number @ '' already exists'')), s)
                 else
                   (let s1 = s\<lparr>req := (req s)\<lparr>final_cc_number := Some number,
                                impact_level := Some lvl,
                                target_completion_time := Some target,
                                qa_registered_by := Some actor,
                                qa_registration_date := Some now,
                                status := PendingCFTEvaluation,
                                current_step := 4\<rparr>\<rparr>
                    in case assign_evaluators evaluator_entries (cft_evaluators s1) of
                         (Some e, rows) \<Rightarrow> (Some e, s1\<lparr>cft_evaluators := rows\<rparr>)
                       | (None, rows) \<Rightarrow>
                           (let s2 = s1\<lparr>cft_evaluators := rows\<rparr>;
                                s3 = log_workflow_history s2 3 ''QA-QMS Registration'' actor
                                       ''QA registration completed''
                                       (''Final CC: '' @ number @ '', Impact: '' @ impact)
                                       (Some previous_status) (Some (status (req s2)))
                            in if lvl = Major \<or> lvl = Critical
                               then (None, create_risk_assessment s3 actor None)
                               else (None, s3))))))"

subsection \<open>\<^verbatim>\<open>workflow.py\<close>: steps 4 and 5\<close>

text \<open>
  \<^verbatim>\<open>cft_evaluation\<close>: step 4. The status and the assignment are checked first. Then
  \<^verbatim>\<open>get_or_create\<close> looks the pair (request, department) up among the evaluations: none
  found, a row is inserted with the submitted fields; one found, its fields are
  overwritten (the completion time only when the decision is not Pending); several found,
  \<^verbatim>\<open>MultipleObjectsReturned\<close> is raised. The history row is written next, with neither
  status given, and only after it the completion check may change the status.
\<close>

definition cft_evaluation ::
  "store \<Rightarrow> user \<Rightarrow> string \<Rightarrow> impact_type \<Rightarrow> decision \<Rightarrow> risk_level \<Rightarrow> string
     \<Rightarrow> (string \<times> string) list \<Rightarrow> timestamp \<Rightarrow> error option \<times> store" where
  "cft_evaluation s actor dept impact_type decision risk_level evaluation_notes documents now =
     (if status (req s) \<noteq> PendingCFTEvaluation
      then (Some (ValidationError ''Request must be pending CFT evaluation''), s)
      else if filter (\<lambda>r. r = (dept, actor)) (cft_evaluators s) = []
      then (Some (ValidationError (''User '' @ actor @ '' is not assigned as evaluator for '' @ dept)), s)
      else
        (case filter (\<lambda>e. ev_department e = dept) (cft_evaluations s) of
           e # e' # es \<Rightarrow> (Some MultipleObjectsReturned, s)
         | found \<Rightarrow>
             (let evaluations =
                    (if found = [] then
                       cft_evaluations s @
                         [\<lparr>ev_department = dept, ev_evaluator = actor,
                           ev_impact_type = impact_type, ev_decision = decision,
                           ev_risk_level = risk_level, ev_notes = evaluation_notes,
                           ev_completed_at =
                             (if decision \<noteq> DecisionPending then Some now else None)\<rparr>]
                     else
                       map (\<lambda>e. if ev_department e = dept
                                 then e\<lparr>ev_impact_type := impact_type,
                                        ev_decision := decision,
                                        ev_risk_level := risk_level,
                                        ev_notes := evaluation_notes,
                                        ev_completed_at :=
                                          (if decision \<noteq> DecisionPending then Some now
                                           else ev_completed_at e)\<rparr>
                                 else e)
                           (cft_evaluations s));
                  s1 = s\<lparr>cft_evaluations := evaluations,
                         cft_documents := cft_documents s @
                           map (\<lambda>(file, descr). (dept, file, descr)) documents\<rparr>;
                  s2 = log_workflow_history s1 4 ''CFT Evaluation'' actor
                         (''CFT evaluation completed for '' @ dept)
                         (''Decision: '' @ decision_value decision @ '', Risk: '' @
                          risk_level_value risk_level)
                         None None
              in if length (cft_evaluators s2) = length (cft_evaluations s2) then
                   (if filter (\<lambda>e. ev_decision e = DecisionRejected) (cft_evaluations s2) \<noteq> []
                    then
                      (None, s2\<lparr>req := (req s2)\<lparr>status := Rejected,
                                  rejection_reason := ''Rejected during CFT evaluation'',
                                  rejected_by := Some actor,
                                  rejected_at := Some now\<rparr>\<rparr>)
                    else if impact_level (req s2) = Some Minor then
                      (None, s2\<lparr>req := (req s2)\<lparr>status := PendingDocumentUpdate,
                                                 current_step := 6\<rparr>\<rparr>)
                    else
                      (case risk_assessment s2 of
                         Some r \<Rightarrow>
                           if ra_status r = TaskCompleted
                           then (None, s2\<lparr>req := (req s2)\<lparr>status := PendingDocumentUpdate,
                                                           current_step := 6\<rparr>\<rparr>)
                           else (None, s2\<lparr>req := (req s2)\<lparr>status := PendingRiskAssessment,
                                                           current_step := 5\<rparr>\<rparr>)
                       | None \<Rightarrow>
                           (None, s2\<lparr>req := (req s2)\<lparr>status := PendingRiskAssessment,
                                                      current_step := 5\<rparr>\<rparr>)))
                 else (None, s2))))"

text \<open>
  \<^verbatim>\<open>complete_risk_assessment\<close>: the function checks that an assessment exists and that the
  actor is its assignee. It does not read the status of the request before it sets it.
\<close>

definition complete_risk_assessment ::
  "store \<Rightarrow> user \<Rightarrow> string \<Rightarrow> string \<Rightarrow> timestamp \<Rightarrow> error option \<times> store" where
  "complete_risk_assessment s actor findings recommendations now =
     (case risk_assessment s of
        None \<Rightarrow> (Some (ValidationError ''Risk assessment does not exist for this request''), s)
      | Some r \<Rightarrow>
          if ra_assigned_to r \<noteq> actor
          then (Some (ValidationError ''Only the assigned user can complete the risk assessment''), s)
          else
            (let s1 = s\<lparr>risk_assessment :=
                         Some (r\<lparr>ra_findings := findings,
                                 ra_recommendations := recommendations,
                                 ra_status := TaskCompleted,
                                 ra_completion_date := Some now\<rparr>)\<rparr>;
                 previous_status = status (req s1);
                 s2 = s1\<lparr>req := (req s1)\<lparr>status := PendingDocumentUpdate, current_step := 6\<rparr>\<rparr>
             in (None,
                 log_workflow_history s2 5 ''Risk Assessment'' actor
                   ''Risk assessment completed'' []
                   (Some previous_status) (Some (status (req s2))))))"

subsection \<open>\<^verbatim>\<open>workflow.py\<close>: steps 6 and 7\<close>

text \<open>
  The loop of \<^verbatim>\<open>document_management\<close>: \<^verbatim>\<open>get_or_create\<close> on (request, name, code,
  department); the table has no uniqueness constraint, so an insertion cannot fail, and
  several rows found raise \<^verbatim>\<open>MultipleObjectsReturned\<close>.
\<close>

fun suggest_documents ::
  "(string \<times> string \<times> string) list \<Rightarrow> document_revision list
     \<Rightarrow> error option \<times> document_revision list" where
  "suggest_documents [] rows = (None, rows)"
| "suggest_documents ((name, dcode, dept) # rest) rows =
     (case filter (\<lambda>r. dr_document_name r = name \<and> dr_document_code r = dcode \<and>
                        dr_assigned_department r = dept) rows of
        [] \<Rightarrow> suggest_documents rest
               (rows @ [\<lparr>dr_document_name = name, dr_document_code = dcode,
                          dr_assigned_department = dept, dr_status = RevPending,
                          dr_revision_notes = [], dr_revision_date = None,
                          dr_revised_by = None\<rparr>])
      | [r] \<Rightarrow> suggest_documents rest rows
      | r # r' # rs \<Rightarrow> (Some MultipleObjectsReturned, rows))"

definition document_management ::
  "store \<Rightarrow> user \<Rightarrow> (string \<times> string \<times> string) list \<Rightarrow> error option \<times> store" where
  "document_management s actor suggested_documents =
     (if status (req s) \<noteq> PendingDocumentUpdate \<and> status (req s) \<noteq> PendingActionPlan
      then (Some (ValidationError ''Request is not in the correct status for document management''), s)
      else
        (case suggest_documents suggested_documents (document_revisions s) of
           (Some e, rows) \<Rightarrow> (Some e, s\<lparr>document_revisions := rows\<rparr>)
         | (None, rows) \<Rightarrow>
             (let s1 = s\<lparr>document_revisions := rows\<rparr>;
                  s2 = (if status (req s1) = PendingDocumentUpdate
                        then s1\<lparr>req := (req s1)\<lparr>current_step := 6\<rparr>\<rparr>
                        else s1)
              in (None,
                  log_workflow_history s2 6 ''Document Management'' actor
                    ''Document revisions suggested/updated'' [] None None))))"

text \<open>
  \<^verbatim>\<open>complete_document_revision\<close>: the revision is the \<open>i\<close>-th revision of the request; the
  view fetches it with \<^verbatim>\<open>get_object_or_404\<close> before the call, which is the first branch.
  The permission test of the function ends in \<^verbatim>\<open>pass\<close>, and the function never raises. A
  history row is written only when the status advances.
\<close>

definition complete_document_revision ::
  "store \<Rightarrow> user \<Rightarrow> nat \<Rightarrow> string \<Rightarrow> timestamp \<Rightarrow> error option \<times> store" where
  "complete_document_revision s actor i revision_notes now =
     (if i \<ge> length (document_revisions s) then (Some Http404, s)
      else
        (let s1 = s\<lparr>document_revisions :=
                     (document_revisions s)
                       [i := (document_revisions s ! i)
                               \<lparr>dr_status := RevCompleted,
                                dr_revision_date := Some now,
                                dr_revised_by := Some actor,
                                dr_revision_notes := revision_notes\<rparr>]\<rparr>;
             pending_revisions =
               filter (\<lambda>r. dr_status r = RevPending \<or> dr_status r = RevInProgress)
                 (document_revisions s1)
         in if pending_revisions = [] then
              (if status (req s1) = PendingDocumentUpdate then
                 (let previous_status = status (req s1);
                      s2 = s1\<lparr>req := (req s1)\<lparr>status := PendingActionPlan, current_step := 7\<rparr>\<rparr>
                  in (None,
                      log_workflow_history s2 6 ''Document Management'' actor
                        ''All document revisions completed'' []
                        (Some previous_status) (Some (status (req s2)))))
               else (None, s1))
            else (None, s1)))"

text \<open>\<^verbatim>\<open>action_plan_management\<close>: step 7; an item is (description, responsible person, timeline).\<close>

definition action_plan_management ::
  "store \<Rightarrow> user \<Rightarrow> (string \<times> user \<times> nat) list \<Rightarrow> error option \<times> store" where
  "action_plan_management s actor plans =
     (if status (req s) \<noteq> PendingActionPlan
      then (Some (ValidationError ''Request must be pending action plan''), s)
      else
        (let s1 = s\<lparr>action_plans := action_plans s @
                     map (\<lambda>(descr, person, timeline).
                            \<lparr>ap_description = descr, ap_responsible_person = person,
                             ap_expected_timeline = timeline, ap_status = TaskPending,
                             ap_completion_date = None, ap_notes = []\<rparr>) plans\<rparr>;
             s2 = s1\<lparr>req := (req s1)\<lparr>current_step := 7\<rparr>\<rparr>
         in (None,
             log_workflow_history s2 7 ''Action Plan & Implementation'' actor
               ''Action plan created/updated'' [] None None)))"

text \<open>
  \<^verbatim>\<open>complete_action_plan\<close>: the item is the \<open>i\<close>-th action plan of the request (fetched by
  the view with \<^verbatim>\<open>get_object_or_404\<close>). \<^verbatim>\<open>workflow.py\<close> does not import \<^verbatim>\<open>ActionPlan\<close> at
  module level; the function imports it in its body, below its first use. The import makes
  \<^verbatim>\<open>ActionPlan\<close> a local name of the whole function, so the first statement after the
  responsibility test, \<^verbatim>\<open>action_plan.status = ActionPlan.StatusChoices.COMPLETED\<close>, raises
  \<^verbatim>\<open>UnboundLocalError\<close> while it evaluates its right-hand side, before anything is assigned.
  The rest of the body (set the completion fields; when no item is Pending or In Progress,
  set the status to PendingQAEvaluation and write a history row) is never reached. The
  function does not read the status of the request.
\<close>

definition complete_action_plan ::
  "store \<Rightarrow> user \<Rightarrow> nat \<Rightarrow> string \<Rightarrow> timestamp \<Rightarrow> error option \<times> store" where
  "complete_action_plan s actor i notes now =
     (if i \<ge> length (action_plans s) then (Some Http404, s)
      else if ap_responsible_person (action_plans s ! i) \<noteq> actor
      then (Some (ValidationError ''Only the responsible person can complete this action''), s)
      else (Some UnboundLocalError, s))"

subsection \<open>\<^verbatim>\<open>workflow.py\<close>: steps 8 to 11\<close>

text \<open>
  \<^verbatim>\<open>qa_final_evaluation\<close>: step 8. The parameter \<^verbatim>\<open>regulatory_filings_complete\<close> is not
  read by the body.
\<close>

definition qa_final_evaluation ::
  "store \<Rightarrow> user \<Rightarrow> bool \<Rightarrow> bool \<Rightarrow> bool \<Rightarrow> bool \<Rightarrow> string \<Rightarrow> error option \<times> store" where
  "qa_final_evaluation s actor cft_complete document_updates_complete risk_assessment_closed
     regulatory_filings_complete comments =
     (if status (req s) \<noteq> PendingQAEvaluation
      then (Some (ValidationError ''Request must be pending QA evaluation''), s)
      else if \<not> cft_complete
      then (Some (ValidationError ''CFT evaluations are not complete''), s)
      else if \<not> document_updates_complete
      then (Some (ValidationError ''Document updates are not complete''), s)
      else if (impact_level (req s) = Some Major \<or> impact_level (req s) = Some Critical) \<and>
              \<not> risk_assessment_closed
      then (Some (ValidationError ''Risk assessment is not closed''), s)
      else if (impact_level (req s) = Some Major \<or> impact_level (req s) = Some Critical) \<and>
              (case risk_assessment s of None \<Rightarrow> True | Some r \<Rightarrow> ra_status r \<noteq> TaskCompleted)
      then (Some (ValidationError ''Risk assessment must be completed''), s)
      else
        (let previous_status = status (req s);
             s1 = s\<lparr>req := (req s)\<lparr>status := PendingQAHeadApproval, current_step := 9\<rparr>\<rparr>
         in (None,
             log_workflow_history s1 8 ''QA Final Evaluation'' actor
               ''QA final evaluation completed'' comments
               (Some previous_status) (Some (status (req s1))))))"

text \<open>\<^verbatim>\<open>qa_head_approval\<close>: step 9. A refusal sends the request back to the action plan.\<close>

definition qa_head_approval ::
  "store \<Rightarrow> user \<Rightarrow> bool \<Rightarrow> string \<Rightarrow> error option \<times> store" where
  "qa_head_approval s actor approved reason =
     (if status (req s) \<noteq> PendingQAHeadApproval
      then (Some (ValidationError ''Request must be pending QA head approval''), s)
      else
        (let previous_status = status (req s) in
         if approved then
           (let s1 = s\<lparr>req := (req s)\<lparr>status := PendingVerification, current_step := 10\<rparr>\<rparr>
            in (None,
                log_workflow_history s1 9 ''QA Head Approval'' actor ''Approved by QA head'' []
                  (Some previous_status) (Some (status (req s1)))))
         else
           (let s1 = s\<lparr>req := (req s)\<lparr>status := PendingActionPlan, current_step := 7\<rparr>\<rparr>
            in (None,
                log_workflow_history s1 9 ''QA Head Approval'' actor ''Returned for correction''
                  reason (Some previous_status) (Some (status (req s1)))))))"

text \<open>\<^verbatim>\<open>qa_closure\<close>: step 11, called by \<^verbatim>\<open>post_implementation_verification\<close>.\<close>

definition qa_closure :: "store \<Rightarrow> user \<Rightarrow> error option \<times> store" where
  "qa_closure s actor =
     (if status (req s) \<noteq> Closed
      then (Some (ValidationError ''Request must be closed before QA closure''), s)
      else (None,
            log_workflow_history s 11 ''QA Closure'' actor ''Change control request closed''
              ''Request successfully closed'' None None))"

text \<open>\<^verbatim>\<open>post_implementation_verification\<close>: step 10.\<close>

definition post_implementation_verification ::
  "store \<Rightarrow> user \<Rightarrow> bool \<Rightarrow> bool \<Rightarrow> bool \<Rightarrow> string \<Rightarrow> timestamp \<Rightarrow> error option \<times> store" where
  "post_implementation_verification s actor change_implemented training_conducted
     no_adverse_impact comments now =
     (if status (req s) \<noteq> PendingVerification
      then (Some (ValidationError ''Request must be pending verification''), s)
      else if \<not> (change_implemented \<and> training_conducted \<and> no_adverse_impact)
      then (Some (ValidationError ''All verification checks must pass''), s)
      else
        (let previous_status = status (req s);
             s1 = s\<lparr>req := (req s)\<lparr>status := Closed, current_step := 11,
                                      closed_at := Some now\<rparr>\<rparr>;
             s2 = log_workflow_history s1 10 ''Post-Implementation Verification'' actor
                    ''Verification completed'' comments
                    (Some previous_status) (Some (status (req s1)))
         in qa_closure s2 actor))"

subsection \<open>The operations of the transition table\<close>

text \<open>
  One constructor per operation on an existing request, with the payload of the
  corresponding view of \<^verbatim>\<open>api.py\<close> (\<open>DocumentManagement\<close> has no view; it is a function of
  \<^verbatim>\<open>workflow.py\<close> all the same). \<open>apply_op\<close> calls the workflow function; the final numbers
  of the other requests, the lookup of the database, the two-digit year and the clock come
  from outside.
\<close>

datatype operation =
    RouteToDeptHead user
  | DeptHeadDecision user bool string
  | QARegister user "string option" string "(string option \<times> user option) list" nat
  | SubmitCFTEvaluation user string impact_type decision risk_level string
  | CompleteRiskAssessment user string string
  | DocumentManagement user "(string \<times> string \<times> string) list"
  | CompleteDocumentRevision user nat string
  | CreateActionPlans user "(string \<times> user \<times> nat) list"
  | CompleteActionPlanItem user nat string
  | QAFinalEvaluation user bool bool bool bool string
  | QAHeadApproval user bool string
  | Verify user bool bool bool string

fun apply_op ::
  "lookup \<Rightarrow> string list \<Rightarrow> string \<Rightarrow> timestamp \<Rightarrow> store \<Rightarrow> operation \<Rightarrow> error option \<times> store" where
  "apply_op lookup others yy now s (RouteToDeptHead actor) = route_to_dept_head s actor"
| "apply_op lookup others yy now s (DeptHeadDecision actor approved reason) =
     dept_head_decision s actor approved reason now"
| "apply_op lookup others yy now s (QARegister actor number impact entries target) =
     qa_registration s lookup others yy actor number impact entries target now"
| "apply_op lookup others yy now s (SubmitCFTEvaluation actor dept it dec rl notes) =
     cft_evaluation s actor dept it dec rl notes [] now"
| "apply_op lookup others yy now s (CompleteRiskAssessment actor findings recommendations) =
     complete_risk_assessment s actor findings recommendations now"
| "apply_op lookup others yy now s (DocumentManagement actor docs) = document_management s actor docs"
| "apply_op lookup others yy now s (CompleteDocumentRevision actor i notes) =
     complete_document_revision s actor i notes now"
| "apply_op lookup others yy now s (CreateActionPlans actor plans) = action_plan_management s actor plans"
| "apply_op lookup others yy now s (CompleteActionPlanItem actor i notes) =
     complete_action_plan s actor i notes now"
| "apply_op lookup others yy now s (QAFinalEvaluation actor c d r f comments) =
     qa_final_evaluation s actor c d r f comments"
| "apply_op lookup others yy now s (QAHeadApproval actor approved reason) =
     qa_head_approval s actor approved reason"
| "apply_op lookup others yy now s (Verify actor c t n comments) =
     post_implementation_verification s actor c t n comments now"

text \<open>
  A sequence of calls on one request: each call starts from the store the previous call
  left, whether it returned or raised, since every view loads the request afresh.
\<close>

fun run_ops ::
  "lookup \<Rightarrow> string list \<Rightarrow> string \<Rightarrow> timestamp \<Rightarrow> store \<Rightarrow> operation list \<Rightarrow> store" where
  "run_ops lookup others yy now s [] = s"
| "run_ops lookup others yy now s (op # ops) = run_ops lookup others yy now (snd (apply_op lookup others yy now s op)) ops"

text \<open>The rejection fields of a request are populated: a reason, an actor and a time.\<close>

definition rejection_populated :: "request \<Rightarrow> bool" where
  "rejection_populated r =
     (rejection_reason r \<noteq> [] \<and> rejected_by r \<noteq> None \<and> rejected_at r \<noteq> None)"

subsection \<open>Vocabulary of the statements\<close>


text \<open>
  The evaluation rows that an accepted \<^verbatim>\<open>cft_evaluation\<close> call leaves: the expression bound
  to \<open>evaluations\<close> in the function, under a name.
\<close>

definition upserted :: "cft_evaluation_row list \<Rightarrow> user \<Rightarrow> string \<Rightarrow> impact_type \<Rightarrow> decision \<Rightarrow> risk_level \<Rightarrow> string \<Rightarrow> timestamp \<Rightarrow> cft_evaluation_row list" where
  "upserted evs actor dept it dec rl remarks now =
     (if filter (\<lambda>e. ev_department e = dept) evs = [] then
        evs @ [\<lparr>ev_department = dept, ev_evaluator = actor, ev_impact_type = it,
                ev_decision = dec, ev_risk_level = rl, ev_notes = remarks,
                ev_completed_at = (if dec \<noteq> DecisionPending then Some now else None)\<rparr>]
      else map (\<lambda>e. if ev_department e = dept
                     then e\<lparr>ev_impact_type := it, ev_decision := dec, ev_risk_level := rl,
                            ev_notes := remarks,
                            ev_completed_at := (if dec \<noteq> DecisionPending then Some now
                                                else ev_completed_at e)\<rparr>
                     else e) evs)"

text \<open>
  Every evaluator of a list submits the same payload, one call after the other, in the
  order of the list; the first exception ends the run.
\<close>

fun submit_all ::
  "store \<Rightarrow> cft_evaluator list \<Rightarrow> impact_type \<Rightarrow> decision \<Rightarrow> risk_level \<Rightarrow> string \<Rightarrow> timestamp
     \<Rightarrow> error option \<times> store" where
  "submit_all s [] it dec rl remarks now = (None, s)"
| "submit_all s ((dept, actor) # rest) it dec rl remarks now =
     (case cft_evaluation s actor dept it dec rl remarks [] now of
        (Some e, s') \<Rightarrow> (Some e, s')
      | (None, s') \<Rightarrow> submit_all s' rest it dec rl remarks now)"

text \<open>
  The status a complete CFT evaluation without a rejection leads to.
\<close>

definition after_cft :: "store \<Rightarrow> status" where
  "after_cft s =
     (if impact_level (req s) = Some Minor then PendingDocumentUpdate
      else (case risk_assessment s of
              Some r \<Rightarrow> if ra_status r = TaskCompleted then PendingDocumentUpdate
                        else PendingRiskAssessment
            | None \<Rightarrow> PendingRiskAssessment))"


subsection \<open>Example data\<close>

definition qa_dept :: department where
  "qa_dept = \<lparr>code = ''QA'', head = Some ''alice''\<rparr>"

definition headless_dept :: department where
  "headless_dept = \<lparr>code = ''PD'', head = None\<rparr>"

text \<open>A request at a given status, with no sub-records and no history.\<close>

definition request_at :: "status \<Rightarrow> impact_level option \<Rightarrow> store" where
  "request_at st lvl =
     \<lparr>req = \<lparr>temporary_cc_number = ''REQ/CC/25/QA/00001'', final_cc_number = None,
              initiator = ''ines'', department = qa_dept, title = ''T'', description = ''D'',
              impact_level = lvl, target_completion_time = None,
              qa_registered_by = None, qa_registration_date = None,
              status = st, current_step = 1, closed_at = None,
              rejection_reason = [], rejected_by = None, rejected_at = None\<rparr>,
      cft_evaluators = [], cft_evaluations = [], cft_documents = [],
      risk_assessment = None, document_revisions = [], action_plans = [],
      workflow_history = []\<rparr>"

text \<open>
  A request waiting for two evaluations; the same with one approval in; the stores after a
  first and a second submission by the same evaluator.
\<close>

definition awaiting_two :: store where
  "awaiting_two =
     (request_at PendingCFTEvaluation (Some Major))
       \<lparr>cft_evaluators := [(''PD'', ''paul''), (''RA'', ''rita'')]\<rparr>"

definition one_approved :: store where
  "one_approved =
     awaiting_two\<lparr>cft_evaluations :=
       [\<lparr>ev_department = ''PD'', ev_evaluator = ''paul'', ev_impact_type = Quality,
         ev_decision = Approved, ev_risk_level = Low, ev_notes = ''fine'',
         ev_completed_at = Some 5\<rparr>]\<rparr>"

definition draft_submitted :: store where
  "draft_submitted =
     snd (cft_evaluation awaiting_two ''paul'' ''PD'' Quality DecisionPending Low ''draft'' [] 7)"

definition final_submitted :: store where
  "final_submitted =
     snd (cft_evaluation draft_submitted ''paul'' ''PD'' Regulatory Approved High ''final'' [] 8)"

text \<open>
  A Minor request waiting for the evaluation of its only evaluator, and the store after
  that evaluator's first submission.
\<close>

definition awaiting_one :: store where
  "awaiting_one =
     (request_at PendingCFTEvaluation (Some Minor))\<lparr>cft_evaluators := [(''PD'', ''paul'')]\<rparr>"

definition sole_submitted :: store where
  "sole_submitted =
     snd (cft_evaluation awaiting_one ''paul'' ''PD'' Quality Approved Low ''first'' [] 7)"

text \<open>
  A request with two pending document revisions, and a request approved by its department head.
\<close>

definition two_revisions :: store where
  "two_revisions =
     (request_at PendingDocumentUpdate (Some Minor))
       \<lparr>document_revisions :=
          [\<lparr>dr_document_name = ''SOP-1'', dr_document_code = ''S1'',
            dr_assigned_department = ''PD'', dr_status = RevPending,
            dr_revision_notes = [], dr_revision_date = None, dr_revised_by = None\<rparr>,
           \<lparr>dr_document_name = ''SOP-2'', dr_document_code = ''S2'',
            dr_assigned_department = ''RA'', dr_status = RevPending,
            dr_revision_notes = [], dr_revision_date = None, dr_revised_by = None\<rparr>]\<rparr>"

definition approved_request :: store where
  "approved_request = request_at PendingQARegistration None"

text \<open>
  A request taken from initiation to a Major registration with one evaluator, and two calls
  that follow: the evaluator rejects, then the assignee completes the risk assessment. The
  tables are empty at the start, so the request is the same for every lookup.
\<close>

definition initiated :: "lookup \<Rightarrow> store" where
  "initiated lookup =
     hd (snd (initiate_request lookup [] ''25'' ''ines'' (Some qa_dept) ''T'' ''D''))"

definition register_major :: "operation list" where
  "register_major =
     [DeptHeadDecision ''alice'' True [],
      QARegister ''quinn'' None ''Major'' [(Some ''PD'', Some ''paul'')] 20]"

definition registered_major :: "lookup \<Rightarrow> store" where
  "registered_major lookup = run_ops lookup [] ''25'' 7 (initiated lookup) register_major"

definition reject_then_assess :: "operation list" where
  "reject_then_assess =
     [SubmitCFTEvaluation ''paul'' ''PD'' Quality DecisionRejected High ''no'',
      CompleteRiskAssessment ''quinn'' ''none'' ''none'']"

lemmas example_defs = awaiting_two_def one_approved_def awaiting_one_def request_at_def qa_dept_def
  headless_dept_def two_revisions_def

lemmas workflow_defs = route_to_dept_head_def dept_head_decision_def qa_registration_def
  create_risk_assessment_def cft_evaluation_def complete_risk_assessment_def
  complete_document_revision_def qa_final_evaluation_def log_workflow_history_def Let_def

section \<open>The tracking-number generator\<close>






lemma zfill_one: "zfill 5 (str_int 1) = ''00001''"
  by (simp add: zfill_def str_int_def str_nat.simps digit_char_def numeral_eq_Suc)




text \<open>
  Runs of the generator with the exact lookup: a malformed suffix and another department's
  number are passed over; a suffix that begins with the separator 0x1C is rejected by
  \<^verbatim>\<open>int\<close> and passed over; a suffix that begins with a no-break space is stripped and read.
\<close>

lemma generate_temp_cc_number_skips_malformed:
  "generate_temp_cc_number startswith ''25'' ''QA''
     [''REQ/CC/25/QA/00007'', ''REQ/CC/25/QA/abc'', ''REQ/CC/25/PD/00042''] = ''REQ/CC/25/QA/00008''"
  by (simp add: generate_temp_cc_number_def cc_prefix_def Let_def split_def py_int_def
        strip_def is_space_def unsigned_int_def is_digit_def digit_val_def zfill_def
        str_int_def str_nat.simps digit_char_def numeral_eq_Suc)

lemma py_int_separator: "py_int [CHR 0x1C, CHR ''7''] = None"
  by (simp add: py_int_def strip_def is_space_def unsigned_int_def is_digit_def)

lemma py_int_no_break_space: "py_int [CHR 0xA0, CHR ''7''] = Some 7"
  by (simp add: py_int_def strip_def is_space_def unsigned_int_def is_digit_def digit_val_def)

lemma generate_temp_cc_number_skips_separator:
  "generate_temp_cc_number startswith ''25'' ''QA''
     [''REQ/CC/25/QA/00003'', ''REQ/CC/25/QA/'' @ [CHR 0x1C, CHR ''7'']] = ''REQ/CC/25/QA/00004''"
  by (simp add: generate_temp_cc_number_def cc_prefix_def Let_def split_def py_int_def
        strip_def is_space_def unsigned_int_def is_digit_def digit_val_def zfill_def
        str_int_def str_nat.simps digit_char_def numeral_eq_Suc)

section \<open>Cross-functional evaluation\<close>

text \<open>
  In a table that respects \<^verbatim>\<open>unique_together\<close>, a key selects no row or one row.
\<close>

lemma filter_key_distinct:
  "distinct (map f xs) \<Longrightarrow> filter (\<lambda>x. f x = k) xs = [] \<or> (\<exists>x. filter (\<lambda>x. f x = k) xs = [x])"
proof (induction xs)
  case Nil
  show ?case by simp
next
  case (Cons a xs)
  show ?case
  proof (cases "f a = k")
    case True
    with Cons.prems have "k \<notin> f ` set xs" by auto
    then have "filter (\<lambda>x. f x = k) xs = []" by (auto simp: filter_empty_conv)
    with True show ?thesis by simp
  next
    case False
    with Cons show ?thesis by simp
  qed
qed

lemma upserted_row:
  assumes dis: "distinct (map ev_department evs)"
  shows "\<exists>e. filter (\<lambda>e. ev_department e = dept) (upserted evs actor dept it dec rl remarks now) = [e]
             \<and> ev_impact_type e = it \<and> ev_decision e = dec \<and> ev_risk_level e = rl \<and> ev_notes e = remarks"
proof -
  let ?upd = "\<lambda>e. if ev_department e = dept
                     then e\<lparr>ev_impact_type := it, ev_decision := dec, ev_risk_level := rl,
                            ev_notes := remarks,
                            ev_completed_at := (if dec \<noteq> DecisionPending then Some now
                                                else ev_completed_at e)\<rparr>
                     else e"
  from filter_key_distinct [OF dis, of dept]
  consider "filter (\<lambda>e. ev_department e = dept) evs = []"
    | x where "filter (\<lambda>e. ev_department e = dept) evs = [x]" by blast
  then show ?thesis
  proof cases
    case 1
    then show ?thesis by (simp add: upserted_def)
  next
    case 2
    have "filter (\<lambda>e. ev_department e = dept) (map ?upd evs) =
          map ?upd (filter (\<lambda>e. ev_department e = dept) evs)"
      by (induction evs) auto
    with 2 have "filter (\<lambda>e. ev_department e = dept) (upserted evs actor dept it dec rl remarks now) = [?upd x]"
      by (simp add: upserted_def)
    moreover from 2 have "ev_department x = dept"
    proof -
      from 2 have "x \<in> set (filter (\<lambda>e. ev_department e = dept) evs)" by simp
      then show ?thesis by simp
    qed
    ultimately show ?thesis by simp
  qed
qed

lemma upserted_others:
  "filter (\<lambda>e. ev_department e \<noteq> dept) (upserted evs actor dept it dec rl remarks now) =
   filter (\<lambda>e. ev_department e \<noteq> dept) evs"
proof -
  have "\<And>f. (\<forall>e. ev_department (f e) = ev_department e) \<Longrightarrow>
          filter (\<lambda>e. ev_department e \<noteq> dept) (map (\<lambda>e. if ev_department e = dept then f e else e) evs) =
          filter (\<lambda>e. ev_department e \<noteq> dept) evs"
    by (induction evs) auto
  then show ?thesis by (simp add: upserted_def)
qed

lemma upserted_departments:
  "map ev_department (upserted evs actor dept it dec rl remarks now) =
     (if filter (\<lambda>e. ev_department e = dept) evs = [] then map ev_department evs @ [dept]
      else map ev_department evs)"
  by (simp add: upserted_def)

lemma upserted_distinct:
  assumes "distinct (map ev_department evs)"
  shows "distinct (map ev_department (upserted evs actor dept it dec rl remarks now))"
proof (cases "filter (\<lambda>e. ev_department e = dept) evs = []")
  case True
  then have "dept \<notin> set (map ev_department evs)" by (auto simp: filter_empty_conv)
  with assms True show ?thesis by (simp add: upserted_departments)
next
  case False
  with assms show ?thesis by (simp add: upserted_departments)
qed

lemma upserted_length:
  "length (upserted evs actor dept it dec rl remarks now) =
     (if filter (\<lambda>e. ev_department e = dept) evs = [] then Suc (length evs) else length evs)"
  by (simp add: upserted_def)

text \<open>
  What an accepted submission leaves, and the status it leads to.
\<close>

lemma cft_evaluation_accepted:
  assumes st: "status (req s) = PendingCFTEvaluation"
      and asg: "(dept, actor) \<in> set (cft_evaluators s)"
      and dis: "distinct (map ev_department (cft_evaluations s))"
  shows "fst (cft_evaluation s actor dept it dec rl remarks docs now) = None"
    and "cft_evaluations (snd (cft_evaluation s actor dept it dec rl remarks docs now)) =
           upserted (cft_evaluations s) actor dept it dec rl remarks now"
    and "cft_evaluators (snd (cft_evaluation s actor dept it dec rl remarks docs now)) = cft_evaluators s"
    and "risk_assessment (snd (cft_evaluation s actor dept it dec rl remarks docs now)) = risk_assessment s"
    and "impact_level (req (snd (cft_evaluation s actor dept it dec rl remarks docs now))) = impact_level (req s)"
proof -
  from asg have ne: "filter (\<lambda>r. r = (dept, actor)) (cft_evaluators s) \<noteq> []"
    by (auto simp: filter_empty_conv)
  from filter_key_distinct [OF dis, of dept]
  consider "filter (\<lambda>e. ev_department e = dept) (cft_evaluations s) = []"
    | x where "filter (\<lambda>e. ev_department e = dept) (cft_evaluations s) = [x]" by blast
  then have "fst (cft_evaluation s actor dept it dec rl remarks docs now) = None
     \<and> cft_evaluations (snd (cft_evaluation s actor dept it dec rl remarks docs now)) =
           upserted (cft_evaluations s) actor dept it dec rl remarks now
     \<and> cft_evaluators (snd (cft_evaluation s actor dept it dec rl remarks docs now)) = cft_evaluators s
     \<and> risk_assessment (snd (cft_evaluation s actor dept it dec rl remarks docs now)) = risk_assessment s
     \<and> impact_level (req (snd (cft_evaluation s actor dept it dec rl remarks docs now))) = impact_level (req s)"
  proof cases
    case 1
    with st ne show ?thesis
      by (simp add: cft_evaluation_def upserted_def Let_def log_workflow_history_def split: option.splits)
  next
    case 2
    with st ne show ?thesis
      by (simp add: cft_evaluation_def upserted_def Let_def log_workflow_history_def split: option.splits)
  qed
  then show "fst (cft_evaluation s actor dept it dec rl remarks docs now) = None"
    and "cft_evaluations (snd (cft_evaluation s actor dept it dec rl remarks docs now)) =
           upserted (cft_evaluations s) actor dept it dec rl remarks now"
    and "cft_evaluators (snd (cft_evaluation s actor dept it dec rl remarks docs now)) = cft_evaluators s"
    and "risk_assessment (snd (cft_evaluation s actor dept it dec rl remarks docs now)) = risk_assessment s"
    and "impact_level (req (snd (cft_evaluation s actor dept it dec rl remarks docs now))) = impact_level (req s)"
    by simp_all
qed

lemma cft_evaluation_status:
  assumes st: "status (req s) = PendingCFTEvaluation"
      and asg: "(dept, actor) \<in> set (cft_evaluators s)"
      and dis: "distinct (map ev_department (cft_evaluations s))"
  shows "status (req (snd (cft_evaluation s actor dept it dec rl remarks docs now))) =
           (if length (cft_evaluators s) =
               length (upserted (cft_evaluations s) actor dept it dec rl remarks now)
            then (if filter (\<lambda>e. ev_decision e = DecisionRejected)
                       (upserted (cft_evaluations s) actor dept it dec rl remarks now) \<noteq> []
                  then Rejected
                  else if impact_level (req s) = Some Minor then PendingDocumentUpdate
                  else (case risk_assessment s of
                          Some r \<Rightarrow> if ra_status r = TaskCompleted then PendingDocumentUpdate
                                    else PendingRiskAssessment
                        | None \<Rightarrow> PendingRiskAssessment))
            else PendingCFTEvaluation)"
proof -
  from asg have ne: "filter (\<lambda>r. r = (dept, actor)) (cft_evaluators s) \<noteq> []"
    by (auto simp: filter_empty_conv)
  from filter_key_distinct [OF dis, of dept]
  consider "filter (\<lambda>e. ev_department e = dept) (cft_evaluations s) = []"
    | x where "filter (\<lambda>e. ev_department e = dept) (cft_evaluations s) = [x]" by blast
  then show ?thesis
  proof cases
    case 1
    with st ne show ?thesis
      by (simp add: cft_evaluation_def upserted_def Let_def log_workflow_history_def split: option.splits)
  next
    case 2
    with st ne show ?thesis
      by (simp add: cft_evaluation_def upserted_def Let_def log_workflow_history_def split: option.splits)
  qed
qed

lemma cft_evaluation_wrong_status:
  "status (req s) \<noteq> PendingCFTEvaluation \<Longrightarrow>
     fst (cft_evaluation s actor dept it dec rl remarks docs now) \<noteq> None"
  by (simp add: cft_evaluation_def)

lemma cft_evaluation_unassigned:
  "(dept, actor) \<notin> set (cft_evaluators s) \<Longrightarrow>
     fst (cft_evaluation s actor dept it dec rl remarks docs now) \<noteq> None"
  by (simp add: cft_evaluation_def filter_empty_conv)

lemma cft_evaluation_returns:
  assumes "cft_evaluation s actor dept it dec rl remarks docs now = (None, s')"
  shows "status (req s) = PendingCFTEvaluation" and "(dept, actor) \<in> set (cft_evaluators s)"
proof -
  from assms have ok: "fst (cft_evaluation s actor dept it dec rl remarks docs now) = None" by simp
  show "status (req s) = PendingCFTEvaluation"
    using ok cft_evaluation_wrong_status by blast
  show "(dept, actor) \<in> set (cft_evaluators s)"
    using ok cft_evaluation_unassigned by blast
qed

text \<open>
  Claim C1. On a request in PendingCFTEvaluation whose evaluation rows have distinct
  departments (the uniqueness constraint of the table), a submission by an assigned
  evaluator returns normally, leaves the assignments as they were, leaves exactly one
  evaluation row for the department, holding the submitted fields, and leaves the rows of
  the other departments untouched. If afterwards there are as many evaluations as
  assignments, the status is Rejected when some evaluation is Rejected, otherwise
  PendingDocumentUpdate when the impact level is Minor, otherwise PendingDocumentUpdate
  when a risk assessment with status Completed exists, otherwise PendingRiskAssessment.
  If the counts differ the status stays PendingCFTEvaluation.
\<close>

theorem cft_evaluation_outcome:
  assumes st: "status (req s) = PendingCFTEvaluation"
      and asg: "(dept, actor) \<in> set (cft_evaluators s)"
      and dis: "distinct (map ev_department (cft_evaluations s))"
  shows "\<exists>s'. cft_evaluation s actor dept it dec rl remarks docs now = (None, s') \<and>
          cft_evaluators s' = cft_evaluators s \<and>
          (\<exists>e. filter (\<lambda>e. ev_department e = dept) (cft_evaluations s') = [e] \<and>
               ev_impact_type e = it \<and> ev_decision e = dec \<and> ev_risk_level e = rl \<and>
               ev_notes e = remarks) \<and>
          filter (\<lambda>e. ev_department e \<noteq> dept) (cft_evaluations s') =
            filter (\<lambda>e. ev_department e \<noteq> dept) (cft_evaluations s) \<and>
          status (req s') =
            (if length (cft_evaluations s') = length (cft_evaluators s') then
               (if \<exists>e\<in>set (cft_evaluations s'). ev_decision e = DecisionRejected then Rejected
                else if impact_level (req s') = Some Minor then PendingDocumentUpdate
                else if \<exists>r. risk_assessment s' = Some r \<and> ra_status r = TaskCompleted
                     then PendingDocumentUpdate
                else PendingRiskAssessment)
             else PendingCFTEvaluation)"
proof -
  let ?r = "cft_evaluation s actor dept it dec rl remarks docs now"
  note acc = cft_evaluation_accepted [OF st asg dis, of it dec rl remarks docs now]
  have rej: "\<And>xs. (filter (\<lambda>e. ev_decision e = DecisionRejected) xs \<noteq> []) =
                   (\<exists>e\<in>set xs. ev_decision e = DecisionRejected)"
    by (auto simp: filter_empty_conv)
  have "?r = (None, snd ?r)" using acc(1) by (metis prod.collapse)
  moreover have "cft_evaluators (snd ?r) = cft_evaluators s" by (rule acc(3))
  moreover have "\<exists>e. filter (\<lambda>e. ev_department e = dept) (cft_evaluations (snd ?r)) = [e] \<and>
               ev_impact_type e = it \<and> ev_decision e = dec \<and> ev_risk_level e = rl \<and>
               ev_notes e = remarks"
    unfolding acc(2) by (rule upserted_row [OF dis])
  moreover have "filter (\<lambda>e. ev_department e \<noteq> dept) (cft_evaluations (snd ?r)) =
            filter (\<lambda>e. ev_department e \<noteq> dept) (cft_evaluations s)"
    unfolding acc(2) by (rule upserted_others)
  moreover have "status (req (snd ?r)) =
            (if length (cft_evaluations (snd ?r)) = length (cft_evaluators (snd ?r)) then
               (if \<exists>e\<in>set (cft_evaluations (snd ?r)). ev_decision e = DecisionRejected then Rejected
                else if impact_level (req (snd ?r)) = Some Minor then PendingDocumentUpdate
                else if \<exists>r. risk_assessment (snd ?r) = Some r \<and> ra_status r = TaskCompleted
                     then PendingDocumentUpdate
                else PendingRiskAssessment)
             else PendingCFTEvaluation)"
    unfolding acc(2) acc(3) acc(4) acc(5) cft_evaluation_status [OF st asg dis] rej
    by (auto split: option.splits)
  ultimately show ?thesis by blast
qed

theorem cft_evaluation_outcome_witness:
  "status (req one_approved) = PendingCFTEvaluation \<and>
   (''RA'', ''rita'') \<in> set (cft_evaluators one_approved) \<and>
   distinct (map ev_department (cft_evaluations one_approved)) \<and>
   (\<exists>s'. cft_evaluation one_approved ''rita'' ''RA'' Quality DecisionRejected High ''no'' [] 9 = (None, s') \<and>
         cft_evaluators s' = cft_evaluators one_approved \<and>
         (\<exists>e. filter (\<lambda>e. ev_department e = ''RA'') (cft_evaluations s') = [e] \<and>
              ev_decision e = DecisionRejected) \<and>
         status (req s') = Rejected)"
proof -
  have h1: "status (req one_approved) = PendingCFTEvaluation" by (simp add: example_defs)
  have h2: "(''RA'', ''rita'') \<in> set (cft_evaluators one_approved)" by (simp add: example_defs)
  have h3: "distinct (map ev_department (cft_evaluations one_approved))" by (simp add: example_defs)
  have run: "status (req (snd (cft_evaluation one_approved ''rita'' ''RA'' Quality DecisionRejected High ''no'' [] 9))) = Rejected"
    by (simp add: example_defs workflow_defs)
  from cft_evaluation_outcome [OF h1 h2 h3, of Quality DecisionRejected High "''no''" "[]" 9]
  obtain s' where s': "cft_evaluation one_approved ''rita'' ''RA'' Quality DecisionRejected High ''no'' [] 9 = (None, s')"
    "cft_evaluators s' = cft_evaluators one_approved"
    "\<exists>e. filter (\<lambda>e. ev_department e = ''RA'') (cft_evaluations s') = [e] \<and>
              ev_impact_type e = Quality \<and> ev_decision e = DecisionRejected \<and> ev_risk_level e = High \<and>
              ev_notes e = ''no''"
    by blast
  from s'(1) run have "status (req s') = Rejected" by simp
  with s' h1 h2 h3 show ?thesis by blast
qed

text \<open>
  Claim C8, as stated, fails when the first submission completes the evaluation: the only
  evaluator of a Minor request submits, the request moves to PendingDocumentUpdate, and the
  second submission, with another payload, is refused by the status check. The single row
  keeps the payload of the first submission.
\<close>

theorem cft_evaluation_resubmission_refused:
  "fst (cft_evaluation awaiting_one ''paul'' ''PD'' Quality Approved Low ''first'' [] 7) = None \<and>
   status (req sole_submitted) = PendingDocumentUpdate \<and>
   fst (cft_evaluation sole_submitted ''paul'' ''PD'' Regulatory ApprovedWithConditions High
          ''second'' [] 8) =
     Some (ValidationError ''Request must be pending CFT evaluation'') \<and>
   map (\<lambda>e. (ev_impact_type e, ev_decision e, ev_risk_level e, ev_notes e))
     (cft_evaluations
        (snd (cft_evaluation sole_submitted ''paul'' ''PD'' Regulatory ApprovedWithConditions High
                ''second'' [] 8))) =
     [(Quality, Approved, Low, ''first'')]"
  by (simp add: sole_submitted_def example_defs workflow_defs)

text \<open>
  Claim C8, amended. On a request in PendingCFTEvaluation whose evaluation rows have
  distinct departments, the first submission of an assigned evaluator is accepted, and
  after a second submission for the same department exactly one evaluation row exists for
  the department and no row was added by the second call. When the request is still in
  PendingCFTEvaluation after the first submission, the second one is accepted and the row
  holds the impact type, decision, risk level and notes of the second submission. When the
  first submission completed the evaluation, the second call raises the
  \<^verbatim>\<open>ValidationError\<close> of the status check and the row holds those of the first submission.
\<close>

theorem cft_evaluation_resubmission:
  assumes st: "status (req s) = PendingCFTEvaluation"
      and asg: "(dept, actor) \<in> set (cft_evaluators s)"
      and dis: "distinct (map ev_department (cft_evaluations s))"
  shows "\<exists>s1. cft_evaluation s actor dept it1 dec1 rl1 remarks1 docs1 now1 = (None, s1) \<and>
           (\<exists>e. filter (\<lambda>e. ev_department e = dept)
                   (cft_evaluations
                      (snd (cft_evaluation s1 actor dept it2 dec2 rl2 remarks2 docs2 now2))) = [e] \<and>
                (if status (req s1) = PendingCFTEvaluation
                 then fst (cft_evaluation s1 actor dept it2 dec2 rl2 remarks2 docs2 now2) = None \<and>
                      ev_impact_type e = it2 \<and> ev_decision e = dec2 \<and>
                      ev_risk_level e = rl2 \<and> ev_notes e = remarks2
                 else fst (cft_evaluation s1 actor dept it2 dec2 rl2 remarks2 docs2 now2) =
                        Some (ValidationError ''Request must be pending CFT evaluation'') \<and>
                      ev_impact_type e = it1 \<and> ev_decision e = dec1 \<and>
                      ev_risk_level e = rl1 \<and> ev_notes e = remarks1)) \<and>
           length (cft_evaluations
                     (snd (cft_evaluation s1 actor dept it2 dec2 rl2 remarks2 docs2 now2))) =
             length (cft_evaluations s1)"
proof -
  let ?first = "cft_evaluation s actor dept it1 dec1 rl1 remarks1 docs1 now1"
  let ?s1 = "snd ?first"
  let ?second = "cft_evaluation ?s1 actor dept it2 dec2 rl2 remarks2 docs2 now2"
  note acc1 = cft_evaluation_accepted [OF st asg dis, of it1 dec1 rl1 remarks1 docs1 now1]
  have first: "?first = (None, ?s1)" using acc1(1) by (metis prod.collapse)
  have e1: "cft_evaluations ?s1 = upserted (cft_evaluations s) actor dept it1 dec1 rl1 remarks1 now1"
    by (rule acc1(2))
  have dis1: "distinct (map ev_department (cft_evaluations ?s1))"
    unfolding e1 by (rule upserted_distinct [OF dis])
  have asg1: "(dept, actor) \<in> set (cft_evaluators ?s1)" using acc1(3) asg by simp
  have row1: "\<exists>e. filter (\<lambda>e. ev_department e = dept) (cft_evaluations ?s1) = [e] \<and>
                  ev_impact_type e = it1 \<and> ev_decision e = dec1 \<and> ev_risk_level e = rl1 \<and>
                  ev_notes e = remarks1"
    unfolding e1 by (rule upserted_row [OF dis])
  have rest: "(\<exists>e. filter (\<lambda>e. ev_department e = dept) (cft_evaluations (snd ?second)) = [e] \<and>
                (if status (req ?s1) = PendingCFTEvaluation
                 then fst ?second = None \<and>
                      ev_impact_type e = it2 \<and> ev_decision e = dec2 \<and>
                      ev_risk_level e = rl2 \<and> ev_notes e = remarks2
                 else fst ?second =
                        Some (ValidationError ''Request must be pending CFT evaluation'') \<and>
                      ev_impact_type e = it1 \<and> ev_decision e = dec1 \<and>
                      ev_risk_level e = rl1 \<and> ev_notes e = remarks1)) \<and>
           length (cft_evaluations (snd ?second)) = length (cft_evaluations ?s1)"
  proof (cases "status (req ?s1) = PendingCFTEvaluation")
    case True
    note acc2 = cft_evaluation_accepted [OF True asg1 dis1, of it2 dec2 rl2 remarks2 docs2 now2]
    have present: "filter (\<lambda>e. ev_department e = dept) (cft_evaluations ?s1) \<noteq> []"
      using row1 by auto
    have "\<exists>e. filter (\<lambda>e. ev_department e = dept) (cft_evaluations (snd ?second)) = [e] \<and>
              ev_impact_type e = it2 \<and> ev_decision e = dec2 \<and> ev_risk_level e = rl2 \<and>
              ev_notes e = remarks2"
      unfolding acc2(2) by (rule upserted_row [OF dis1])
    moreover have "length (cft_evaluations (snd ?second)) = length (cft_evaluations ?s1)"
      unfolding acc2(2) using present by (simp add: upserted_length)
    ultimately show ?thesis using True acc2(1) by auto
  next
    case False
    then have refused: "?second =
        (Some (ValidationError ''Request must be pending CFT evaluation''), ?s1)"
      by (simp add: cft_evaluation_def)
    with row1 False show ?thesis by auto
  qed
  from first rest show ?thesis by blast
qed

theorem cft_evaluation_resubmission_witness:
  "status (req awaiting_two) = PendingCFTEvaluation \<and>
   (''PD'', ''paul'') \<in> set (cft_evaluators awaiting_two) \<and>
   distinct (map ev_department (cft_evaluations awaiting_two)) \<and>
   cft_evaluation awaiting_two ''paul'' ''PD'' Quality DecisionPending Low ''draft'' [] 7 =
     (None, draft_submitted) \<and>
   status (req draft_submitted) = PendingCFTEvaluation \<and>
   fst (cft_evaluation draft_submitted ''paul'' ''PD'' Regulatory Approved High ''final'' [] 8) = None \<and>
   (\<exists>e. filter (\<lambda>e. ev_department e = ''PD'') (cft_evaluations final_submitted) = [e] \<and>
        ev_impact_type e = Regulatory \<and> ev_decision e = Approved \<and> ev_risk_level e = High \<and>
        ev_notes e = ''final'') \<and>
   length (cft_evaluations final_submitted) = length (cft_evaluations draft_submitted)"
proof -
  have h1: "status (req awaiting_two) = PendingCFTEvaluation" by (simp add: example_defs)
  have h2: "(''PD'', ''paul'') \<in> set (cft_evaluators awaiting_two)" by (simp add: example_defs)
  have h3: "distinct (map ev_department (cft_evaluations awaiting_two))" by (simp add: example_defs)
  have still: "status (req draft_submitted) = PendingCFTEvaluation"
    by (simp add: draft_submitted_def example_defs workflow_defs)
  from cft_evaluation_resubmission [OF h1 h2 h3,
      of Quality DecisionPending Low "''draft''" "[]" 7 Regulatory Approved High "''final''" "[]" 8]
  obtain s1 where first: "cft_evaluation awaiting_two ''paul'' ''PD'' Quality DecisionPending Low
                            ''draft'' [] 7 = (None, s1)"
    and rows: "\<exists>e. filter (\<lambda>e. ev_department e = ''PD'')
                 (cft_evaluations
                    (snd (cft_evaluation s1 ''paul'' ''PD'' Regulatory Approved High ''final'' [] 8))) = [e] \<and>
              (if status (req s1) = PendingCFTEvaluation
               then fst (cft_evaluation s1 ''paul'' ''PD'' Regulatory Approved High ''final'' [] 8) = None \<and>
                    ev_impact_type e = Regulatory \<and> ev_decision e = Approved \<and>
                    ev_risk_level e = High \<and> ev_notes e = ''final''
               else fst (cft_evaluation s1 ''paul'' ''PD'' Regulatory Approved High ''final'' [] 8) =
                      Some (ValidationError ''Request must be pending CFT evaluation'') \<and>
                    ev_impact_type e = Quality \<and> ev_decision e = DecisionPending \<and>
                    ev_risk_level e = Low \<and> ev_notes e = ''draft'')"
    and len: "length (cft_evaluations
                 (snd (cft_evaluation s1 ''paul'' ''PD'' Regulatory Approved High ''final'' [] 8))) =
              length (cft_evaluations s1)"
    by blast
  from first have s1: "s1 = draft_submitted" by (simp add: draft_submitted_def)
  from rows len still h1 h2 h3 first show ?thesis
    unfolding s1 final_submitted_def [symmetric] by auto
qed

lemma submit_all_pending_aux:
  assumes "status (req s) = PendingCFTEvaluation"
      and "cft_evaluators s = done @ todo"
      and "todo \<noteq> []"
      and "distinct (map fst (done @ todo))"
      and "map ev_department (cft_evaluations s) = map fst done"
      and "list_all (\<lambda>e. ev_decision e = DecisionPending \<and> ev_completed_at e = None) (cft_evaluations s)"
  shows "\<exists>s'. submit_all s todo it DecisionPending rl remarks now = (None, s') \<and>
           status (req s') = after_cft s \<and>
           length (cft_evaluations s') = length (cft_evaluators s) \<and>
           list_all (\<lambda>e. ev_decision e = DecisionPending \<and> ev_completed_at e = None)
             (cft_evaluations s')"
  using assms
proof (induction todo arbitrary: s "done")
  case Nil
  then show ?case by simp
next
  case (Cons p rest)
  obtain dept actor where p: "p = (dept, actor)" by (cases p)
  let ?r = "cft_evaluation s actor dept it DecisionPending rl remarks [] now"
  let ?s1 = "snd ?r"
  let ?P = "\<lambda>e. ev_decision e = DecisionPending \<and> ev_completed_at e = None"
  have st: "status (req s) = PendingCFTEvaluation" by (rule Cons.prems(1))
  have asg: "(dept, actor) \<in> set (cft_evaluators s)" using Cons.prems(2) p by simp
  have dis: "distinct (map ev_department (cft_evaluations s))"
    using Cons.prems(4,5) by simp
  note acc = cft_evaluation_accepted [OF st asg dis, of it DecisionPending rl remarks "[]" now]
  have fresh: "filter (\<lambda>e. ev_department e = dept) (cft_evaluations s) = []"
  proof -
    have "dept \<notin> set (map fst done)" using Cons.prems(4) p by auto
    then have "dept \<notin> set (map ev_department (cft_evaluations s))" using Cons.prems(5) by simp
    then show ?thesis by (auto simp: filter_empty_conv)
  qed
  have evs1: "cft_evaluations ?s1 = cft_evaluations s @
      [\<lparr>ev_department = dept, ev_evaluator = actor, ev_impact_type = it,
        ev_decision = DecisionPending, ev_risk_level = rl, ev_notes = remarks,
        ev_completed_at = None\<rparr>]"
    unfolding acc(2) using fresh by (simp add: upserted_def)
  have all1: "list_all ?P (cft_evaluations ?s1)"
    unfolding evs1 using Cons.prems(6) by simp
  have norej: "filter (\<lambda>e. ev_decision e = DecisionRejected) (cft_evaluations ?s1) = []"
    using all1 by (auto simp: filter_empty_conv list_all_iff)
  have len1: "length (cft_evaluations ?s1) = Suc (length done)"
    unfolding evs1 using Cons.prems(5) by (metis length_append_singleton length_map)
  have lenE: "length (cft_evaluators s) = Suc (length done) + length rest"
    using Cons.prems(2) by simp
  have status1: "status (req ?s1) =
       (if rest = [] then after_cft s else PendingCFTEvaluation)"
    using cft_evaluation_status [OF st asg dis, of it DecisionPending rl remarks "[]" now]
      norej len1 lenE
    unfolding acc(2) [symmetric]
    by (auto simp: after_cft_def split: option.splits)
  have run: "submit_all s (p # rest) it DecisionPending rl remarks now =
             submit_all ?s1 rest it DecisionPending rl remarks now"
    using acc(1) p by (cases ?r) simp
  show ?case
  proof (cases "rest = []")
    case True
    with run status1 all1 len1 lenE show ?thesis by simp
  next
    case False
    have after: "after_cft ?s1 = after_cft s" by (simp add: after_cft_def acc(4) acc(5))
    have "\<exists>s'. submit_all ?s1 rest it DecisionPending rl remarks now = (None, s') \<and>
           status (req s') = after_cft ?s1 \<and>
           length (cft_evaluations s') = length (cft_evaluators ?s1) \<and>
           list_all ?P (cft_evaluations s')"
    proof (rule Cons.IH [of ?s1 "done @ [p]"])
      show "status (req ?s1) = PendingCFTEvaluation" using status1 False by simp
      show "cft_evaluators ?s1 = (done @ [p]) @ rest" using acc(3) Cons.prems(2) by simp
      show "rest \<noteq> []" by (rule False)
      show "distinct (map fst ((done @ [p]) @ rest))" using Cons.prems(4) by simp
      show "map ev_department (cft_evaluations ?s1) = map fst (done @ [p])"
        unfolding evs1 using Cons.prems(5) p by simp
      show "list_all ?P (cft_evaluations ?s1)" by (rule all1)
    qed
    with run after acc(3) show ?thesis by simp
  qed
qed

text \<open>
  Claim C9. When no evaluation exists yet and every assigned evaluator submits the
  decision Pending, every submission is accepted and the last one moves the request out
  of PendingCFTEvaluation: to PendingDocumentUpdate for a Minor request (or when a
  completed risk assessment exists), to PendingRiskAssessment otherwise. All evaluations
  then have the decision Pending and no completion time.
\<close>

theorem pending_decisions_complete_the_evaluation:
  assumes "status (req s) = PendingCFTEvaluation"
      and "cft_evaluations s = []"
      and "cft_evaluators s \<noteq> []"
      and "distinct (map fst (cft_evaluators s))"
  shows "\<exists>s'. submit_all s (cft_evaluators s) it DecisionPending rl remarks now = (None, s') \<and>
           status (req s') =
             (if impact_level (req s) = Some Minor then PendingDocumentUpdate
              else if \<exists>r. risk_assessment s = Some r \<and> ra_status r = TaskCompleted
                   then PendingDocumentUpdate
              else PendingRiskAssessment) \<and>
           length (cft_evaluations s') = length (cft_evaluators s) \<and>
           list_all (\<lambda>e. ev_decision e = DecisionPending \<and> ev_completed_at e = None)
             (cft_evaluations s')"
proof -
  have "after_cft s =
          (if impact_level (req s) = Some Minor then PendingDocumentUpdate
           else if \<exists>r. risk_assessment s = Some r \<and> ra_status r = TaskCompleted
                then PendingDocumentUpdate
           else PendingRiskAssessment)"
    by (simp add: after_cft_def split: option.splits)
  with submit_all_pending_aux [of s "[]" "cft_evaluators s" it rl remarks now] assms
  show ?thesis by simp
qed

theorem pending_decisions_complete_the_evaluation_witness:
  "status (req awaiting_two) = PendingCFTEvaluation \<and>
   cft_evaluations awaiting_two = [] \<and>
   cft_evaluators awaiting_two \<noteq> [] \<and>
   distinct (map fst (cft_evaluators awaiting_two)) \<and>
   (\<exists>s'. submit_all awaiting_two (cft_evaluators awaiting_two) Other DecisionPending Low [] 7 = (None, s') \<and>
         status (req s') = PendingRiskAssessment \<and>
         length (cft_evaluations s') = 2 \<and>
         list_all (\<lambda>e. ev_decision e = DecisionPending \<and> ev_completed_at e = None) (cft_evaluations s'))"
proof -
  have h1: "status (req awaiting_two) = PendingCFTEvaluation" by (simp add: example_defs)
  have h2: "cft_evaluations awaiting_two = []" by (simp add: example_defs)
  have h3: "cft_evaluators awaiting_two \<noteq> []" by (simp add: example_defs)
  have h4: "distinct (map fst (cft_evaluators awaiting_two))" by (simp add: example_defs)
  have i: "impact_level (req awaiting_two) = Some Major" "risk_assessment awaiting_two = None"
    "length (cft_evaluators awaiting_two) = 2"
    by (simp_all add: example_defs)
  from pending_decisions_complete_the_evaluation [OF h1 h2 h3 h4, of Other Low "[]" 7] i h1 h2 h3 h4
  show ?thesis by simp
qed

section \<open>QA registration without evaluators\<close>

lemma assign_evaluators_all_skipped:
  "list_all (\<lambda>(d, u). d = None \<or> u = None) entries \<Longrightarrow>
     assign_evaluators entries rows = (None, rows)"
  by (induction entries rows rule: assign_evaluators.induct) simp_all

lemma qa_registration_wrong_status:
  "status (req s) \<noteq> PendingQARegistration \<Longrightarrow>
     fst (qa_registration s lookup others yy actor given impact entries target now) \<noteq> None"
  by (simp add: qa_registration_def)

text \<open>
  Claim C10. When a registration with impact level Major or Critical returns, every
  evaluator entry lacks its department or its evaluator (the empty list included), no risk
  assessment exists yet and the request has as many evaluations as assignments (none of
  either, for a request that has just been approved), then no assignment is created, a
  pending risk assessment is created, and the status after the call is
  PendingRiskAssessment.
\<close>

theorem qa_registration_without_evaluators:
  assumes ok: "fst (qa_registration s lookup others yy actor given impact entries target now) = None"
      and lvl: "impact = ''Major'' \<or> impact = ''Critical''"
      and skipped: "list_all (\<lambda>(d, u). d = None \<or> u = None) entries"
      and norisk: "risk_assessment s = None"
      and counts: "length (cft_evaluators s) = length (cft_evaluations s)"
  shows "status (req (snd (qa_registration s lookup others yy actor given impact entries target now))) =
           PendingRiskAssessment \<and>
         cft_evaluators (snd (qa_registration s lookup others yy actor given impact entries target now)) =
           cft_evaluators s \<and>
         (\<exists>r. risk_assessment (snd (qa_registration s lookup others yy actor given impact entries target now)) =
                Some r \<and> ra_status r = TaskPending)"
proof -
  have st: "status (req s) = PendingQARegistration"
    using ok qa_registration_wrong_status by blast
  from lvl have il: "impact_level_of impact = Some Major \<or> impact_level_of impact = Some Critical"
    by auto
  show ?thesis
    using ok st il norisk counts
    by (simp add: qa_registration_def Let_def assign_evaluators_all_skipped [OF skipped]
           create_risk_assessment_def log_workflow_history_def
           split: if_splits option.splits)
qed

theorem qa_registration_without_evaluators_witness:
  "fst (qa_registration approved_request startswith [] ''25'' ''quinn'' None ''Critical''
          [(None, Some ''paul''), (Some ''RA'', None)] 30 7) = None \<and>
   risk_assessment approved_request = None \<and>
   length (cft_evaluators approved_request) = length (cft_evaluations approved_request) \<and>
   status (req (snd (qa_registration approved_request startswith [] ''25'' ''quinn'' None ''Critical''
          [(None, Some ''paul''), (Some ''RA'', None)] 30 7))) = PendingRiskAssessment"
proof -
  have h1: "fst (qa_registration approved_request startswith [] ''25'' ''quinn'' None ''Critical''
          [(None, Some ''paul''), (Some ''RA'', None)] 30 7) = None"
    by (simp add: approved_request_def example_defs workflow_defs generate_final_cc_number_def
          cc_prefix_def zfill_one)
  have h2: "''Critical'' = ''Major'' \<or> ''Critical'' = ''Critical''" by simp
  have h3: "list_all (\<lambda>(d, u). d = None \<or> u = None) [(None, Some ''paul''), (Some ''RA'', None :: user option)]"
    by simp
  have h4: "risk_assessment approved_request = None" by (simp add: approved_request_def example_defs)
  have h5: "length (cft_evaluators approved_request) = length (cft_evaluations approved_request)"
    by (simp add: approved_request_def example_defs)
  from qa_registration_without_evaluators [OF h1 h2 h3 h4 h5] h1 h4 h5 show ?thesis by simp
qed

section \<open>The audit log\<close>












text \<open>
  \<^verbatim>\<open>complete_action_plan\<close> returns normally for no input.
\<close>

lemma complete_action_plan_raises:
  "fst (complete_action_plan s actor i remarks now) \<noteq> None"
  by (simp add: complete_action_plan_def)


text \<open>
  A second departure from the claim: the history row of a submission that completes the
  evaluation is written before the status changes, so it shows PendingCFTEvaluation twice
  while the status after the call is PendingRiskAssessment.
\<close>

lemma cft_threshold_entry_keeps_old_status:
  "status (req (snd (cft_evaluation one_approved ''rita'' ''RA'' Quality Approved Low [] [] 9))) =
     PendingRiskAssessment \<and>
   map (\<lambda>e. (wh_previous_status e, wh_new_status e))
     (workflow_history (snd (cft_evaluation one_approved ''rita'' ''RA'' Quality Approved Low [] [] 9))) =
     [(PendingCFTEvaluation, PendingCFTEvaluation)]"
  by (simp add: example_defs workflow_defs)



section \<open>Status guards\<close>

text \<open>
  The eight functions that read the status first refuse any other status with a
  \<^verbatim>\<open>ValidationError\<close> and leave the store as it is.
\<close>

lemma wrong_status_is_refused:
  "status (req s) \<noteq> Draft \<Longrightarrow>
     route_to_dept_head s actor =
       (Some (ValidationError ''Request must be in Draft status to route to department head''), s)"
  "status (req s) \<noteq> PendingDeptHead \<Longrightarrow>
     dept_head_decision s actor approved reason now =
       (Some (ValidationError ''Request must be pending department head approval''), s)"
  "status (req s) \<noteq> PendingQARegistration \<Longrightarrow>
     qa_registration s lookup others yy actor given impact entries target now =
       (Some (ValidationError ''Request must be pending QA registration''), s)"
  "status (req s) \<noteq> PendingCFTEvaluation \<Longrightarrow>
     cft_evaluation s actor dept it dec rl remarks docs now =
       (Some (ValidationError ''Request must be pending CFT evaluation''), s)"
  "status (req s) \<noteq> PendingActionPlan \<Longrightarrow>
     action_plan_management s actor plans =
       (Some (ValidationError ''Request must be pending action plan''), s)"
  "status (req s) \<noteq> PendingQAEvaluation \<Longrightarrow>
     qa_final_evaluation s actor c1 c2 c3 c4 comments =
       (Some (ValidationError ''Request must be pending QA evaluation''), s)"
  "status (req s) \<noteq> PendingQAHeadApproval \<Longrightarrow>
     qa_head_approval s actor approved reason =
       (Some (ValidationError ''Request must be pending QA head approval''), s)"
  "status (req s) \<noteq> PendingVerification \<Longrightarrow>
     post_implementation_verification s actor b1 b2 b3 comments now =
       (Some (ValidationError ''Request must be pending verification''), s)"
  by (simp_all add: route_to_dept_head_def dept_head_decision_def qa_registration_def
        cft_evaluation_def action_plan_management_def qa_final_evaluation_def
        qa_head_approval_def post_implementation_verification_def)

text \<open>
  \<^verbatim>\<open>complete_risk_assessment\<close> accepts the call of the assignee at every status of the
  request, the terminal ones included, and always sets PendingDocumentUpdate.
\<close>

lemma complete_risk_assessment_any_status:
  assumes "risk_assessment s = Some r" and "ra_assigned_to r = actor"
  shows "fst (complete_risk_assessment s actor findings recommendations now) = None \<and>
         status (req (snd (complete_risk_assessment s actor findings recommendations now))) =
           PendingDocumentUpdate"
  using assms by (simp add: complete_risk_assessment_def Let_def log_workflow_history_def)

text \<open>
  The example request: initiation succeeds and routes it to the department head; after the
  approval and a Major registration it waits for one evaluation.
\<close>

lemma initiate_request_initiated:
  "initiate_request lookup [] ''25'' ''ines'' (Some qa_dept) ''T'' ''D'' = (None, [initiated lookup])"
  by (simp add: initiated_def initiate_request_def qa_dept_def generate_temp_cc_number_def
        cc_prefix_def new_request_def workflow_defs)

lemma initiated_status: "status (req (initiated lookup)) = PendingDeptHead"
  by (simp add: initiated_def initiate_request_def qa_dept_def generate_temp_cc_number_def
        cc_prefix_def new_request_def workflow_defs)

lemma registered_major_facts:
  "status (req (registered_major lookup)) = PendingCFTEvaluation"
  "cft_evaluators (registered_major lookup) = [(''PD'', ''paul'')]"
  "cft_evaluations (registered_major lookup) = []"
  "map_option ra_assigned_to (risk_assessment (registered_major lookup)) = Some ''quinn''"
  "rejection_reason (req (registered_major lookup)) = []"
  by (simp_all add: registered_major_def register_major_def initiated_def initiate_request_def
        qa_dept_def generate_temp_cc_number_def generate_final_cc_number_def
        cc_prefix_def new_request_def workflow_defs zfill_one)

text \<open>
  Claim C2 does not hold for \<^verbatim>\<open>complete_risk_assessment\<close>: on a request that is in
  PendingCFTEvaluation, with its evaluation still open, the call by the assignee returns
  normally and sets the status to PendingDocumentUpdate.
\<close>

theorem complete_risk_assessment_skips_status_check:
  "status (req (registered_major lookup)) = PendingCFTEvaluation \<and>
   fst (complete_risk_assessment (registered_major lookup) ''quinn'' ''none'' ''none'' 9) = None \<and>
   status (req (snd (complete_risk_assessment (registered_major lookup) ''quinn'' ''none'' ''none'' 9))) =
     PendingDocumentUpdate"
  using registered_major_facts [of lookup]
  by (auto simp: complete_risk_assessment_def Let_def log_workflow_history_def split: option.splits)

section \<open>QA final evaluation\<close>

text \<open>
  The result of \<^verbatim>\<open>qa_final_evaluation\<close> does not depend on \<^verbatim>\<open>regulatory_filings_complete\<close>.
\<close>

lemma qa_final_evaluation_regulatory_irrelevant:
  "qa_final_evaluation s actor c d r True comments = qa_final_evaluation s actor c d r False comments"
  by (simp add: qa_final_evaluation_def)

text \<open>
  Claim C4 does not hold for the fourth flag: with \<^verbatim>\<open>regulatory_filings_complete\<close> false
  and the other flags true, the call on a Minor request in PendingQAEvaluation returns
  normally and the status becomes PendingQAHeadApproval.
\<close>

theorem qa_final_evaluation_ignores_regulatory_filings:
  "fst (qa_final_evaluation (request_at PendingQAEvaluation (Some Minor)) ''quinn'' True True True False []) = None \<and>
   status (req (snd (qa_final_evaluation (request_at PendingQAEvaluation (Some Minor)) ''quinn''
                       True True True False []))) = PendingQAHeadApproval"
  by (simp add: example_defs workflow_defs)

section \<open>Rejection fields\<close>

lemma cft_evaluation_rejection_fields:
  "(status (req (snd (cft_evaluation s actor dept it dec rl remarks docs now))) = Rejected \<and>
    status (req s) \<noteq> Rejected \<longrightarrow>
      rejection_populated (req (snd (cft_evaluation s actor dept it dec rl remarks docs now)))) \<and>
   (status (req (snd (cft_evaluation s actor dept it dec rl remarks docs now))) \<noteq> Rejected \<longrightarrow>
      rejection_reason (req (snd (cft_evaluation s actor dept it dec rl remarks docs now))) =
        rejection_reason (req s) \<and>
      rejected_by (req (snd (cft_evaluation s actor dept it dec rl remarks docs now))) =
        rejected_by (req s) \<and>
      rejected_at (req (snd (cft_evaluation s actor dept it dec rl remarks docs now))) =
        rejected_at (req s))"
proof (cases "status (req s) = PendingCFTEvaluation \<and>
              filter (\<lambda>r. r = (dept, actor)) (cft_evaluators s) \<noteq> []")
  case False
  then show ?thesis by (auto simp: cft_evaluation_def)
next
  case True
  show ?thesis
  proof (cases "filter (\<lambda>e. ev_department e = dept) (cft_evaluations s)")
    case Nil
    with True show ?thesis
      by (simp add: cft_evaluation_def Let_def log_workflow_history_def rejection_populated_def
            split: option.splits)
  next
    case (Cons x xs)
    show ?thesis
    proof (cases xs)
      case Nil
      with Cons True show ?thesis
        by (simp add: cft_evaluation_def Let_def log_workflow_history_def rejection_populated_def
              split: option.splits)
    next
      case (Cons y ys)
      with \<open>filter (\<lambda>e. ev_department e = dept) (cft_evaluations s) = x # xs\<close> True
      show ?thesis by (simp add: cft_evaluation_def)
    qed
  qed
qed

lemma qa_registration_rejection_fields:
  "status (req (snd (qa_registration s lookup others yy actor given impact entries target now))) \<noteq> Rejected \<or>
     status (req s) = Rejected"
  "rejection_reason (req (snd (qa_registration s lookup others yy actor given impact entries target now))) =
        rejection_reason (req s) \<and>
   rejected_by (req (snd (qa_registration s lookup others yy actor given impact entries target now))) =
        rejected_by (req s) \<and>
   rejected_at (req (snd (qa_registration s lookup others yy actor given impact entries target now))) =
        rejected_at (req s)"
  by (auto simp: qa_registration_def create_risk_assessment_def log_workflow_history_def Let_def
       split: if_splits option.splits prod.splits)

text \<open>
  An operation that moves a request to Rejected populates the three rejection fields, and
  an operation that leaves a request in another status leaves the three fields as they were.
\<close>

lemma rejection_sets_all_fields:
  assumes "status (req s) \<noteq> Rejected"
      and "status (req (snd (apply_op lookup others yy now s op))) = Rejected"
  shows "rejection_populated (req (snd (apply_op lookup others yy now s op)))"
proof (cases op)
  case (SubmitCFTEvaluation a d it dec rl r)
  with assms show ?thesis
    using cft_evaluation_rejection_fields [of s a d it dec rl r "[]" now] by simp
next
  case (QARegister a g i e t)
  with assms show ?thesis
    using qa_registration_rejection_fields(1) [of s lookup others yy a g i e t now] by simp
next
  case (DeptHeadDecision a b r)
  with assms show ?thesis
    by (auto simp: rejection_populated_def dept_head_decision_def log_workflow_history_def Let_def
          split: if_splits)
next
  case (RouteToDeptHead a)
  with assms show ?thesis
    by (auto simp: route_to_dept_head_def log_workflow_history_def Let_def
          split: if_splits option.splits)
next
  case (CompleteRiskAssessment a f r)
  with assms show ?thesis
    by (auto simp: complete_risk_assessment_def log_workflow_history_def Let_def
          split: if_splits option.splits)
next
  case (DocumentManagement a d)
  with assms show ?thesis
    by (auto simp: document_management_def log_workflow_history_def Let_def
          split: if_splits option.splits prod.splits)
next
  case (CompleteDocumentRevision a i r)
  with assms show ?thesis
    by (auto simp: complete_document_revision_def log_workflow_history_def Let_def
          split: if_splits)
next
  case (CreateActionPlans a p)
  with assms show ?thesis
    by (auto simp: action_plan_management_def log_workflow_history_def Let_def split: if_splits)
next
  case (CompleteActionPlanItem a i r)
  with assms show ?thesis by (auto simp: complete_action_plan_def split: if_splits)
next
  case (QAFinalEvaluation a c d r f m)
  with assms show ?thesis
    by (auto simp: qa_final_evaluation_def log_workflow_history_def Let_def split: if_splits)
next
  case (QAHeadApproval a b r)
  with assms show ?thesis
    by (auto simp: qa_head_approval_def log_workflow_history_def Let_def split: if_splits)
next
  case (Verify a c t n m)
  with assms show ?thesis
    by (auto simp: post_implementation_verification_def qa_closure_def log_workflow_history_def
          Let_def split: if_splits)
qed

lemma rejection_fields_change_only_on_rejection:
  assumes "status (req (snd (apply_op lookup others yy now s op))) \<noteq> Rejected"
  shows "rejection_reason (req (snd (apply_op lookup others yy now s op))) = rejection_reason (req s) \<and>
         rejected_by (req (snd (apply_op lookup others yy now s op))) = rejected_by (req s) \<and>
         rejected_at (req (snd (apply_op lookup others yy now s op))) = rejected_at (req s)"
proof (cases op)
  case (SubmitCFTEvaluation a d it dec rl r)
  with assms show ?thesis
    using cft_evaluation_rejection_fields [of s a d it dec rl r "[]" now] by simp
next
  case (QARegister a g i e t)
  then show ?thesis
    using qa_registration_rejection_fields(2) [of s lookup others yy a g i e t now] by simp
next
  case (DeptHeadDecision a b r)
  with assms show ?thesis
    by (auto simp: dept_head_decision_def log_workflow_history_def Let_def split: if_splits)
next
  case (RouteToDeptHead a)
  with assms show ?thesis
    by (auto simp: route_to_dept_head_def log_workflow_history_def Let_def
          split: if_splits option.splits)
next
  case (CompleteRiskAssessment a f r)
  with assms show ?thesis
    by (auto simp: complete_risk_assessment_def log_workflow_history_def Let_def
          split: if_splits option.splits)
next
  case (DocumentManagement a d)
  with assms show ?thesis
    by (auto simp: document_management_def log_workflow_history_def Let_def
          split: if_splits option.splits prod.splits)
next
  case (CompleteDocumentRevision a i r)
  with assms show ?thesis
    by (auto simp: complete_document_revision_def log_workflow_history_def Let_def
          split: if_splits)
next
  case (CreateActionPlans a p)
  with assms show ?thesis
    by (auto simp: action_plan_management_def log_workflow_history_def Let_def split: if_splits)
next
  case (CompleteActionPlanItem a i r)
  with assms show ?thesis by (auto simp: complete_action_plan_def split: if_splits)
next
  case (QAFinalEvaluation a c d r f m)
  with assms show ?thesis
    by (auto simp: qa_final_evaluation_def log_workflow_history_def Let_def split: if_splits)
next
  case (QAHeadApproval a b r)
  with assms show ?thesis
    by (auto simp: qa_head_approval_def log_workflow_history_def Let_def split: if_splits)
next
  case (Verify a c t n m)
  with assms show ?thesis
    by (auto simp: post_implementation_verification_def qa_closure_def log_workflow_history_def
          Let_def split: if_splits)
qed

text \<open>
  Claim C5 does not hold on a sequence of calls: after a rejection in the CFT evaluation
  of a Major request, the assignee completes the risk assessment; the status becomes
  PendingDocumentUpdate while the three rejection fields stay populated.
\<close>

theorem rejection_fields_survive_risk_assessment:
  "status (req (run_ops lookup [] ''25'' 8 (registered_major lookup) (butlast reject_then_assess))) =
     Rejected \<and>
   status (req (run_ops lookup [] ''25'' 8 (registered_major lookup) reject_then_assess)) =
     PendingDocumentUpdate \<and>
   rejection_populated (req (run_ops lookup [] ''25'' 8 (registered_major lookup) reject_then_assess))"
  by (simp add: reject_then_assess_def rejection_populated_def
        registered_major_def register_major_def initiated_def initiate_request_def
        qa_dept_def generate_temp_cc_number_def generate_final_cc_number_def
        cc_prefix_def new_request_def workflow_defs zfill_one)

section \<open>Exceptions and what is already written\<close>

text \<open>
  A failed verification check leaves the store as it is, and so does every exception of an
  operation other than QARegister and DocumentManagement.
\<close>

lemma verification_needs_all_checks:
  "status (req s) = PendingVerification \<Longrightarrow> \<not> (b1 \<and> b2 \<and> b3) \<Longrightarrow>
     post_implementation_verification s actor b1 b2 b3 comments now =
       (Some (ValidationError ''All verification checks must pass''), s)"
  by (simp add: post_implementation_verification_def)

lemma cft_evaluation_raise:
  assumes "fst (cft_evaluation s actor dept it dec rl remarks docs now) \<noteq> None"
  shows "snd (cft_evaluation s actor dept it dec rl remarks docs now) = s"
proof (cases "status (req s) = PendingCFTEvaluation \<and>
              filter (\<lambda>r. r = (dept, actor)) (cft_evaluators s) \<noteq> []")
  case False
  then show ?thesis by (auto simp: cft_evaluation_def)
next
  case True
  show ?thesis
  proof (cases "filter (\<lambda>e. ev_department e = dept) (cft_evaluations s)")
    case Nil
    with True have "fst (cft_evaluation s actor dept it dec rl remarks docs now) = None"
      by (simp add: cft_evaluation_def Let_def split: option.splits)
    with assms show ?thesis by simp
  next
    case (Cons x xs)
    show ?thesis
    proof (cases xs)
      case Nil
      with Cons True have "fst (cft_evaluation s actor dept it dec rl remarks docs now) = None"
        by (simp add: cft_evaluation_def Let_def split: option.splits)
      with assms show ?thesis by simp
    next
      case (Cons y ys)
      with \<open>filter (\<lambda>e. ev_department e = dept) (cft_evaluations s) = x # xs\<close> True
      show ?thesis by (simp add: cft_evaluation_def)
    qed
  qed
qed

lemma raise_keeps_store:
  assumes "fst (apply_op lookup others yy now s op) \<noteq> None"
      and "\<And>a g i e t. op \<noteq> QARegister a g i e t"
      and "\<And>a d. op \<noteq> DocumentManagement a d"
  shows "snd (apply_op lookup others yy now s op) = s"
proof (cases op)
  case (SubmitCFTEvaluation a d it dec rl r)
  with assms(1) show ?thesis by (simp add: cft_evaluation_raise)
next
  case (QARegister a g i e t)
  with assms(2) show ?thesis by blast
next
  case (DocumentManagement a d)
  with assms(3) show ?thesis by blast
next
  case (RouteToDeptHead a)
  with assms(1) show ?thesis
    by (auto simp: route_to_dept_head_def Let_def split: if_splits option.splits)
next
  case (DeptHeadDecision a b r)
  with assms(1) show ?thesis
    by (auto simp: dept_head_decision_def Let_def split: if_splits)
next
  case (CompleteRiskAssessment a f r)
  with assms(1) show ?thesis
    by (auto simp: complete_risk_assessment_def Let_def split: if_splits option.splits)
next
  case (CompleteDocumentRevision a i r)
  with assms(1) show ?thesis
    by (auto simp: complete_document_revision_def Let_def split: if_splits)
next
  case (CreateActionPlans a p)
  with assms(1) show ?thesis
    by (auto simp: action_plan_management_def Let_def split: if_splits)
next
  case (CompleteActionPlanItem a i r)
  then show ?thesis by (simp add: complete_action_plan_def)
next
  case (QAFinalEvaluation a c d r f m)
  with assms(1) show ?thesis
    by (auto simp: qa_final_evaluation_def Let_def split: if_splits)
next
  case (QAHeadApproval a b r)
  with assms(1) show ?thesis
    by (auto simp: qa_head_approval_def Let_def split: if_splits)
next
  case (Verify a c t n m)
  with assms(1) show ?thesis
    by (auto simp: post_implementation_verification_def qa_closure_def log_workflow_history_def Let_def split: if_splits)
qed

text \<open>
  A registration that names one department twice with different evaluators raises
  \<^verbatim>\<open>IntegrityError\<close> after the request was saved: the status is PendingCFTEvaluation and no
  history row was written.
\<close>

lemma qa_registration_conflicting_evaluators:
  "fst (qa_registration approved_request lookup [] ''25'' ''quinn'' None ''Minor''
          [(Some ''PD'', Some ''paul''), (Some ''PD'', Some ''rita'')] 30 7) = Some IntegrityError \<and>
   status (req (snd (qa_registration approved_request lookup [] ''25'' ''quinn'' None ''Minor''
          [(Some ''PD'', Some ''paul''), (Some ''PD'', Some ''rita'')] 30 7))) = PendingCFTEvaluation \<and>
   workflow_history (snd (qa_registration approved_request lookup [] ''25'' ''quinn'' None ''Minor''
          [(Some ''PD'', Some ''paul''), (Some ''PD'', Some ''rita'')] 30 7)) = []"
    by (simp add: approved_request_def example_defs workflow_defs generate_final_cc_number_def
          cc_prefix_def zfill_one)

text \<open>
  Claim C6 does not hold for \<^verbatim>\<open>initiate_request\<close>: for a department without a head the
  call raises \<^verbatim>\<open>ValidationError\<close>, and the table of requests then holds a Draft request
  with the temporary number and the history row of the initiation.
\<close>

theorem initiate_request_headless_persists:
  "fst (initiate_request lookup [] ''25'' ''ines'' (Some headless_dept) ''T'' ''D'') =
     Some (ValidationError ''Department PD does not have a department head assigned'') \<and>
   map (\<lambda>s. (temporary_cc_number (req s), status (req s), map wh_action (workflow_history s)))
     (snd (initiate_request lookup [] ''25'' ''ines'' (Some headless_dept) ''T'' ''D'')) =
     [(''REQ/CC/25/PD/00001'', Draft, [''Request initiated''])]"
  by (simp add: initiate_request_def headless_dept_def generate_temp_cc_number_def cc_prefix_def
       new_request_def route_to_dept_head_def log_workflow_history_def Let_def zfill_one)

end
